theory Spec2Isabelle
  imports Main
begin

section \<open>Resource models (models.py)\<close>

text \<open>
  A Python \<open>str\<close> is a \<open>string\<close>; one character of the model stands for one character
  of the source string.  A \<open>Dict[str, str]\<close> is the list of its items (keys unique), read
  with \<open>map_of\<close>; the empty dict is the empty list.  \<open>Optional[T]\<close> is \<open>T option\<close>.
\<close>

type_synonym dict = "(string \<times> string) list"

text \<open>Truth value of an \<open>Optional[str]\<close>: \<open>None\<close> and the empty string are falsy.\<close>

definition truthy_str :: "string option \<Rightarrow> bool" where
  "truthy_str s = (case s of None \<Rightarrow> False | Some v \<Rightarrow> v \<noteq> [])"

text \<open>Truth value of an \<open>Optional[Dict]\<close>: \<open>None\<close> and the empty dict are falsy.\<close>

definition truthy_dict :: "dict option \<Rightarrow> bool" where
  "truthy_dict d = (case d of None \<Rightarrow> False | Some kvs \<Rightarrow> kvs \<noteq> [])"

text \<open>The expression \<open>a or b\<close> for an optional string \<open>a\<close> and a string \<open>b\<close>.\<close>

definition or_str :: "string option \<Rightarrow> string \<Rightarrow> string" where
  "or_str a b = (case a of None \<Rightarrow> b | Some v \<Rightarrow> if v = [] then b else v)"

record BaseResource =
  resource_id :: string
  resource_type :: string
  region :: string
  tags :: dict

text \<open>
  \<open>BaseResource.__post_init__\<close>: every subclass declares \<open>name\<close>, so \<open>hasattr\<close> holds;
  the name is taken from the \<open>Name\<close> tag when no (non-empty) name was given and the tag
  is present.
\<close>

definition post_init_name :: "string option \<Rightarrow> dict \<Rightarrow> string option" where
  "post_init_name nm tgs =
     (if \<not> truthy_str nm \<and> map_of tgs ''Name'' \<noteq> None then map_of tgs ''Name'' else nm)"

record VPC = BaseResource +
  cidr_block :: string
  state :: string
  is_default :: bool
  name :: "string option"

record Subnet = BaseResource +
  vpc_id :: string
  cidr_block :: string
  availability_zone :: string
  state :: string
  map_public_ip_on_launch :: bool
  name :: "string option"

record RouteTable = BaseResource +
  vpc_id :: string
  routes :: "dict list"
  subnet_associations :: "string list"
  name :: "string option"

record InternetGateway = BaseResource +
  vpc_id :: "string option"
  state :: string
  name :: "string option"

record EC2Instance = BaseResource +
  instance_type :: string
  state :: string
  vpc_id :: string
  subnet_id :: string
  private_ip :: string
  security_groups :: "string list"
  public_ip :: "string option"
  name :: "string option"

record LambdaFunction = BaseResource +
  function_name :: string
  runtime :: string
  state :: string
  subnet_ids :: "string list"
  security_group_ids :: "string list"
  vpc_config :: "dict option"
  name :: "string option"

record Route53HostedZone = BaseResource +
  zone_name :: string
  zone_id :: string
  private_zone :: bool
  record_count :: int
  vpc_associations :: "string list"
  name :: "string option"

record APIGateway = BaseResource +
  api_name :: string
  api_type :: string
  protocol_type :: string
  endpoint_type :: string
  vpc_links :: "string list"
  name :: "string option"

text \<open>
  Modelled from the spec: the NAT gateway record.  models.py declares no such class; the
  diagram generator reads \<open>resource_id\<close>, \<open>subnet_id\<close> and \<open>name\<close> of each element of
  \<open>topology.nat_gateways\<close>, and the spec lists NatGateway among the resource records, with
  a single parent \<open>subnet_id\<close>.
\<close>

record NATGateway = BaseResource +
  subnet_id :: string
  name :: "string option"

subsection \<open>Construction: the dataclass initialiser followed by \<open>__post_init__\<close>\<close>

text \<open>
  The arguments are the dataclass fields in declaration order.  \<open>__post_init__\<close> of each
  class first runs the one of \<open>BaseResource\<close>, which settles the name, and then
  overwrites \<open>resource_type\<close> with the constant of the class, whatever the caller passed
  (\<open>rtype\<close>).
\<close>

definition new_VPC ::
  "string \<Rightarrow> string \<Rightarrow> string \<Rightarrow> dict \<Rightarrow> string \<Rightarrow> string \<Rightarrow> bool \<Rightarrow> string option \<Rightarrow> VPC" where
  "new_VPC rid rtype reg tgs cidr st dflt nm =
     \<lparr>resource_id = rid, resource_type = ''vpc'', BaseResource.region = reg,
      tags = tgs, VPC.cidr_block = cidr, VPC.state = st, is_default = dflt,
      VPC.name = post_init_name nm tgs\<rparr>"

definition new_Subnet ::
  "string \<Rightarrow> string \<Rightarrow> string \<Rightarrow> dict \<Rightarrow> string \<Rightarrow> string \<Rightarrow> string \<Rightarrow> string \<Rightarrow> bool
     \<Rightarrow> string option \<Rightarrow> Subnet" where
  "new_Subnet rid rtype reg tgs vid cidr az st pub nm =
     \<lparr>resource_id = rid, resource_type = ''subnet'', BaseResource.region = reg,
      tags = tgs, Subnet.vpc_id = vid, Subnet.cidr_block = cidr,
      availability_zone = az, Subnet.state = st, map_public_ip_on_launch = pub,
      Subnet.name = post_init_name nm tgs\<rparr>"

definition new_RouteTable ::
  "string \<Rightarrow> string \<Rightarrow> string \<Rightarrow> dict \<Rightarrow> string \<Rightarrow> dict list \<Rightarrow> string list
     \<Rightarrow> string option \<Rightarrow> RouteTable" where
  "new_RouteTable rid rtype reg tgs vid rs assocs nm =
     \<lparr>resource_id = rid, resource_type = ''route_table'', BaseResource.region = reg,
      tags = tgs, RouteTable.vpc_id = vid, routes = rs, subnet_associations = assocs,
      RouteTable.name = post_init_name nm tgs\<rparr>"

definition new_InternetGateway ::
  "string \<Rightarrow> string \<Rightarrow> string \<Rightarrow> dict \<Rightarrow> string option \<Rightarrow> string \<Rightarrow> string option
     \<Rightarrow> InternetGateway" where
  "new_InternetGateway rid rtype reg tgs vid st nm =
     \<lparr>resource_id = rid, resource_type = ''internet_gateway'',
      BaseResource.region = reg, tags = tgs, InternetGateway.vpc_id = vid,
      InternetGateway.state = st, InternetGateway.name = post_init_name nm tgs\<rparr>"

definition new_EC2Instance ::
  "string \<Rightarrow> string \<Rightarrow> string \<Rightarrow> dict \<Rightarrow> string \<Rightarrow> string \<Rightarrow> string \<Rightarrow> string \<Rightarrow> string
     \<Rightarrow> string list \<Rightarrow> string option \<Rightarrow> string option \<Rightarrow> EC2Instance" where
  "new_EC2Instance rid rtype reg tgs ity st vid sid pip sgs pub nm =
     \<lparr>resource_id = rid, resource_type = ''ec2_instance'', BaseResource.region = reg,
      tags = tgs,
      instance_type = ity, EC2Instance.state = st, EC2Instance.vpc_id = vid, EC2Instance.subnet_id = sid,
      private_ip = pip, security_groups = sgs,
      public_ip = pub, EC2Instance.name = post_init_name nm tgs\<rparr>"

definition new_LambdaFunction ::
  "string \<Rightarrow> string \<Rightarrow> string \<Rightarrow> dict \<Rightarrow> string \<Rightarrow> string \<Rightarrow> string \<Rightarrow> string list
     \<Rightarrow> string list \<Rightarrow> dict option \<Rightarrow> string option \<Rightarrow> LambdaFunction" where
  "new_LambdaFunction rid rtype reg tgs fn rt st sids sgids cfg nm =
     \<lparr>resource_id = rid, resource_type = ''lambda_function'',
      BaseResource.region = reg, tags = tgs, function_name = fn, runtime = rt,
      LambdaFunction.state = st, subnet_ids = sids, security_group_ids = sgids,
      vpc_config = cfg, LambdaFunction.name = post_init_name nm tgs\<rparr>"

definition new_Route53HostedZone ::
  "string \<Rightarrow> string \<Rightarrow> string \<Rightarrow> dict \<Rightarrow> string \<Rightarrow> string \<Rightarrow> bool \<Rightarrow> int \<Rightarrow> string list
     \<Rightarrow> string option \<Rightarrow> Route53HostedZone" where
  "new_Route53HostedZone rid rtype reg tgs zn zid priv cnt assocs nm =
     \<lparr>resource_id = rid, resource_type = ''route53_hosted_zone'',
      BaseResource.region = reg, tags = tgs, zone_name = zn, zone_id = zid,
      private_zone = priv, record_count = cnt,
      vpc_associations = assocs, Route53HostedZone.name = post_init_name nm tgs\<rparr>"

definition new_APIGateway ::
  "string \<Rightarrow> string \<Rightarrow> string \<Rightarrow> dict \<Rightarrow> string \<Rightarrow> string \<Rightarrow> string \<Rightarrow> string \<Rightarrow> string list
     \<Rightarrow> string option \<Rightarrow> APIGateway" where
  "new_APIGateway rid rtype reg tgs an aty proto ety links nm =
     \<lparr>resource_id = rid, resource_type = ''api_gateway'', BaseResource.region = reg,
      tags = tgs, api_name = an, api_type = aty, protocol_type = proto,
      endpoint_type = ety, vpc_links = links,
      APIGateway.name = post_init_name nm tgs\<rparr>"

section \<open>Organization layer (organizer.py)\<close>

text \<open>
  Modelled from the spec: the attributes \<open>nat_gateways\<close>, \<open>route53_zones\<close> and
  \<open>api_gateways\<close> of a NetworkTopology.  The diagram generator of
  presentation/plantuml_generator.py imports its topology types from
  \<open>..executor.organizer\<close>, a module that is not among the sources, and reads these three
  attributes; the spec's data model lets a NetworkTopology hold NAT gateways, DNS zones
  and API endpoints.  The dataclass of organizer.py declares the first six fields only,
  and \<open>organize_network_topology\<close> sets no other: \<open>None\<close> stands for an object that has
  no such attribute (reading it raises \<open>AttributeError\<close>).
\<close>

record NetworkTopology =
  vpc :: VPC
  subnets :: "Subnet list"
  route_tables :: "RouteTable list"
  internet_gateways :: "InternetGateway list"
  ec2_instances :: "EC2Instance list"
  lambda_functions :: "LambdaFunction list"
  nat_gateways :: "NATGateway list option"
  route53_zones :: "Route53HostedZone list option"
  api_gateways :: "APIGateway list option"

definition get_subnet_by_id :: "NetworkTopology \<Rightarrow> string \<Rightarrow> Subnet option" where
  "get_subnet_by_id t sid = find (\<lambda>s. resource_id s = sid) (subnets t)"

definition get_instances_by_subnet :: "NetworkTopology \<Rightarrow> string \<Rightarrow> EC2Instance list" where
  "get_instances_by_subnet t sid =
     filter (\<lambda>instance. EC2Instance.subnet_id instance = sid) (ec2_instances t)"

definition get_lambda_functions_by_subnet ::
  "NetworkTopology \<Rightarrow> string \<Rightarrow> LambdaFunction list" where
  "get_lambda_functions_by_subnet t sid =
     filter (\<lambda>func. sid \<in> set (subnet_ids func)) (lambda_functions t)"

definition get_public_subnets :: "NetworkTopology \<Rightarrow> Subnet list" where
  "get_public_subnets t = filter (\<lambda>s. map_public_ip_on_launch s) (subnets t)"

definition get_private_subnets :: "NetworkTopology \<Rightarrow> Subnet list" where
  "get_private_subnets t = filter (\<lambda>s. \<not> map_public_ip_on_launch s) (subnets t)"

record AccountTopology =
  region :: string
  vpcs :: "NetworkTopology list"

definition get_vpc_topology :: "AccountTopology \<Rightarrow> string \<Rightarrow> NetworkTopology option" where
  "get_vpc_topology a vid = find (\<lambda>t. resource_id (vpc t) = vid) (vpcs a)"

definition get_all_instances :: "AccountTopology \<Rightarrow> EC2Instance list" where
  "get_all_instances a = concat (map ec2_instances (vpcs a))"

definition get_all_subnets :: "AccountTopology \<Rightarrow> Subnet list" where
  "get_all_subnets a = concat (map subnets (vpcs a))"

text \<open>
  One pass of the loop body of \<open>organize_network_topology\<close>: the topology built for one
  VPC.  \<open>lfs\<close> is the list after \<open>lambda_functions or []\<close>.
\<close>

definition vpc_topology ::
  "Subnet list \<Rightarrow> RouteTable list \<Rightarrow> InternetGateway list \<Rightarrow> EC2Instance list
     \<Rightarrow> LambdaFunction list \<Rightarrow> VPC \<Rightarrow> NetworkTopology" where
  "vpc_topology sns rts igws insts lfs v =
     (let vpc_subnets = filter (\<lambda>subnet. Subnet.vpc_id subnet = resource_id v) sns;
          vpc_route_tables = filter (\<lambda>rt. RouteTable.vpc_id rt = resource_id v) rts;
          vpc_gateways = filter (\<lambda>igw. InternetGateway.vpc_id igw = Some (resource_id v)) igws;
          vpc_instances = filter (\<lambda>instance. EC2Instance.vpc_id instance = resource_id v) insts;
          vpc_lambda_functions =
            filter (\<lambda>func. truthy_dict (vpc_config func) \<and>
                      list_ex (\<lambda>subnet. Subnet.vpc_id subnet = resource_id v)
                        (filter (\<lambda>subnet. resource_id subnet \<in> set (subnet_ids func))
                           vpc_subnets))
              lfs
      in \<lparr>vpc = v, subnets = vpc_subnets, route_tables = vpc_route_tables,
          internet_gateways = vpc_gateways, ec2_instances = vpc_instances,
          lambda_functions = vpc_lambda_functions,
          nat_gateways = None, route53_zones = None, api_gateways = None\<rparr>)"

definition organize_network_topology ::
  "VPC list \<Rightarrow> Subnet list \<Rightarrow> RouteTable list \<Rightarrow> InternetGateway list \<Rightarrow> EC2Instance list
     \<Rightarrow> LambdaFunction list option \<Rightarrow> NetworkTopology list" where
  "organize_network_topology vs sns rts igws insts lambda_fns =
     (let lfs = (case lambda_fns of None \<Rightarrow> [] | Some l \<Rightarrow> l)
      in map (vpc_topology sns rts igws insts lfs) vs)"

definition create_account_topology :: "string \<Rightarrow> NetworkTopology list \<Rightarrow> AccountTopology" where
  "create_account_topology reg network_topologies =
     \<lparr>AccountTopology.region = reg, vpcs = network_topologies\<rparr>"

section \<open>Strings and the output sink\<close>

abbreviation nl :: string where
  "nl \<equiv> [CHR 0x0A]"

abbreviation dq :: string where
  "dq \<equiv> [CHR 0x22]"

abbreviation bs :: string where
  "bs \<equiv> [CHR 0x5C]"

text \<open>\<open>str(n)\<close> for a length: the decimal digits.\<close>

definition digit_char :: "nat \<Rightarrow> char" where
  "digit_char d = char_of (48 + d)"

fun str_nat :: "nat \<Rightarrow> string" where
  "str_nat n = (if n < 10 then [digit_char n] else str_nat (n div 10) @ [digit_char (n mod 10)])"

declare str_nat.simps [simp del]

definition str_bool :: "bool \<Rightarrow> string" where
  "str_bool b = (if b then ''True'' else ''False'')"

text \<open>\<open>s.replace(a, b)\<close> for single characters \<open>a\<close> and \<open>b\<close>.\<close>

definition replace_char :: "char \<Rightarrow> char \<Rightarrow> string \<Rightarrow> string" where
  "replace_char a b s = map (\<lambda>c. if c = a then b else c) s"

text \<open>\<open>sep.join(xs)\<close>.\<close>

fun join :: "string \<Rightarrow> string list \<Rightarrow> string" where
  "join sep [] = []"
| "join sep [x] = x"
| "join sep (x # y # ys) = x @ sep @ join sep (y # ys)"

text \<open>\<open>d.get(k, default)\<close>.\<close>

definition dict_get :: "dict \<Rightarrow> string \<Rightarrow> string \<Rightarrow> string" where
  "dict_get d k dflt = (case map_of d k of None \<Rightarrow> dflt | Some v \<Rightarrow> v)"

text \<open>
  The output sink (a \<open>TextIO\<close>) is the sequence of the strings written to it, in order;
  its content is their concatenation.  \<open>output.write(s)\<close> appends \<open>s\<close>.
\<close>

type_synonym sink = "string list"

definition output_write :: "string \<Rightarrow> sink \<Rightarrow> sink" where
  "output_write s out = out @ [s]"

definition content :: "sink \<Rightarrow> string" where
  "content out = concat out"

section \<open>Text diagrams (diagram.py)\<close>

record TextDiagramGenerator =
  indent_size :: int

definition indent :: "TextDiagramGenerator \<Rightarrow> int \<Rightarrow> string" where
  "indent g level = replicate (nat (level * indent_size g)) (CHR '' '')"

text \<open>
  \<open>generate_subnet_diagram\<close> (lines 18-38): \<open>write_instance\<close> is the body of its loop
  over the instances of a subnet, \<open>write_subnet\<close> the body of its loop over the subnets.
\<close>

definition write_instance :: "TextDiagramGenerator \<Rightarrow> EC2Instance \<Rightarrow> sink \<Rightarrow> sink" where
  "write_instance g instance out =
     (let out1 = output_write (indent g 3 @ or_str (EC2Instance.name instance) (resource_id instance) @ nl) out;
          out2 = output_write (indent g 4 @ ''Type: '' @ instance_type instance @ nl) out1;
          out3 = output_write (indent g 4 @ ''State: '' @ EC2Instance.state instance @ nl) out2;
          out4 = output_write (indent g 4 @ ''Private IP: '' @ private_ip instance @ nl) out3
      in if truthy_str (public_ip instance)
         then output_write (indent g 4 @ ''Public IP: '' @ the (public_ip instance) @ nl) out4
         else out4)"

definition write_subnet :: "TextDiagramGenerator \<Rightarrow> NetworkTopology \<Rightarrow> Subnet \<Rightarrow> sink \<Rightarrow> sink" where
  "write_subnet g t subnet out =
     (let subnet_type = (if map_public_ip_on_launch subnet then ''Public'' else ''Private'');
          out1 = output_write (indent g 1 @ subnet_type @ '' Subnet: ''
                        @ or_str (Subnet.name subnet) (resource_id subnet) @ nl) out;
          out2 = output_write (indent g 2 @ ''CIDR: '' @ Subnet.cidr_block subnet @ nl) out1;
          out3 = output_write (indent g 2 @ ''AZ: '' @ availability_zone subnet @ nl) out2;
          instances = get_instances_by_subnet t (resource_id subnet);
          out4 = (if instances \<noteq> []
                  then fold (write_instance g) instances
                         (output_write (indent g 2 @ ''EC2 Instances:'' @ nl) out3)
                  else out3)
      in output_write nl out4)"

definition generate_subnet_diagram ::
  "TextDiagramGenerator \<Rightarrow> NetworkTopology \<Rightarrow> sink \<Rightarrow> sink" where
  "generate_subnet_diagram g t out =
     fold (write_subnet g t) (subnets t)
       (output_write (''VPC: '' @ or_str (VPC.name (vpc t)) (resource_id (vpc t))
               @ '' ('' @ VPC.cidr_block (vpc t) @ '')'' @ nl) out)"

text \<open>The line of the VPC-level summary that reports the number of instances.\<close>

definition total_instances_line :: "TextDiagramGenerator \<Rightarrow> nat \<Rightarrow> string" where
  "total_instances_line g n = indent g 1 @ ''Total EC2 Instances: '' @ str_nat n @ nl"

definition generate_vpc_diagram ::
  "TextDiagramGenerator \<Rightarrow> NetworkTopology \<Rightarrow> sink \<Rightarrow> sink" where
  "generate_vpc_diagram g t out =
     (let out1 = output_write (''VPC: '' @ or_str (VPC.name (vpc t)) (resource_id (vpc t)) @ nl) out;
          out2 = output_write (indent g 1 @ ''CIDR: '' @ VPC.cidr_block (vpc t) @ nl) out1;
          out3 = output_write (indent g 1 @ ''State: '' @ VPC.state (vpc t) @ nl) out2;
          out4 = output_write (indent g 1 @ ''Default: '' @ str_bool (is_default (vpc t)) @ nl) out3;
          out5 = (if internet_gateways t \<noteq> []
                  then fold (\<lambda>igw. output_write (indent g 2 @ resource_id igw @ '' (''
                                           @ InternetGateway.state igw @ '')'' @ nl))
                         (internet_gateways t)
                         (output_write (indent g 1 @ ''Internet Gateways:'' @ nl) out4)
                  else out4);
          public_subnets = get_public_subnets t;
          private_subnets = get_private_subnets t;
          out6 = (if public_subnets \<noteq> []
                  then output_write (indent g 1 @ ''Public Subnets: ''
                              @ str_nat (length public_subnets) @ nl) out5
                  else out5);
          out7 = (if private_subnets \<noteq> []
                  then output_write (indent g 1 @ ''Private Subnets: ''
                              @ str_nat (length private_subnets) @ nl) out6
                  else out6);
          total_instances = length (ec2_instances t);
          out8 = (if total_instances \<noteq> 0
                  then output_write (total_instances_line g total_instances) out7
                  else out7)
      in output_write nl out8)"

definition generate_account_diagram ::
  "TextDiagramGenerator \<Rightarrow> AccountTopology \<Rightarrow> sink \<Rightarrow> sink" where
  "generate_account_diagram g a out =
     (let out1 = output_write (''AWS Account - Region: '' @ AccountTopology.region a @ nl) out;
          out2 = output_write (''Total VPCs: '' @ str_nat (length (vpcs a)) @ nl) out1;
          out3 = output_write (''Total Instances: '' @ str_nat (length (get_all_instances a)) @ nl) out2;
          out4 = output_write (''Total Subnets: '' @ str_nat (length (get_all_subnets a)) @ nl) out3;
          out5 = output_write nl out4
      in fold (generate_vpc_diagram g) (vpcs a) out5)"

definition generate_full_diagram ::
  "TextDiagramGenerator \<Rightarrow> AccountTopology \<Rightarrow> sink \<Rightarrow> sink" where
  "generate_full_diagram g a out =
     (let out1 = output_write (replicate 60 (CHR ''='') @ nl) out;
          out2 = output_write (''AWS CLOUD INFRASTRUCTURE MAP'' @ nl) out1;
          out3 = output_write (replicate 60 (CHR ''='') @ nl @ nl) out2;
          out4 = generate_account_diagram g a out3;
          out5 = output_write (''DETAILED VPC BREAKDOWN:'' @ nl) out4;
          out6 = output_write (replicate 30 (CHR ''-'') @ nl @ nl) out5
      in fold (\<lambda>vpc_topology o1.
                 output_write (replicate 30 (CHR ''-'') @ nl) (generate_subnet_diagram g vpc_topology o1))
           (vpcs a) out6)"

section \<open>PlantUML diagrams (presentation/plantuml_generator.py)\<close>

text \<open>
  Reading an attribute that the object does not have raises \<open>AttributeError\<close>; the
  argument is the attribute's name.
\<close>

datatype py_error = AttributeError string

text \<open>A \<open>for\<close> loop over a list whose body may raise: the first error ends the loop.\<close>

fun fold_err :: "('a \<Rightarrow> 's \<Rightarrow> 'e + 's) \<Rightarrow> 'a list \<Rightarrow> 's \<Rightarrow> 'e + 's" where
  "fold_err f [] s = Inr s"
| "fold_err f (x # xs) s = (case f x s of Inl e \<Rightarrow> Inl e | Inr s' \<Rightarrow> fold_err f xs s')"

text \<open>
  The local variables of \<open>_generate_vpc_diagram_lines\<close> that the loops append to.
  (\<open>route53_ids\<close> and \<open>api_ids\<close> are appended to as well and never read; they are left
  out.)
\<close>

record vpc_lines_state =
  lines :: "string list"
  igw_ids :: "string list"
  nat_gateway_ids :: "string list"
  ec2_ids :: "string list"

definition emit :: "string \<Rightarrow> vpc_lines_state \<Rightarrow> vpc_lines_state" where
  "emit l st = st\<lparr>lines := lines st @ [l]\<rparr>"

text \<open>
  \<open>az_groups\<close>: a dict from AZ to \<open>{'public': [...], 'private': [...]}\<close>.  A Python dict
  keeps its keys in insertion order, and the generator iterates over it, so the dict is
  the list of its items in that order; the inner dict is the pair (public, private).
\<close>

type_synonym az_groups = "(string \<times> (Subnet list \<times> Subnet list)) list"

definition az_add_subnet :: "Subnet \<Rightarrow> az_groups \<Rightarrow> az_groups" where
  "az_add_subnet subnet groups =
     (let az = availability_zone subnet;
          groups1 = (if az \<notin> set (map fst groups) then groups @ [(az, ([], []))] else groups)
      in map (\<lambda>(k, (pub, priv)).
                if k = az
                then (if map_public_ip_on_launch subnet
                      then (k, (pub @ [subnet], priv))
                      else (k, (pub, priv @ [subnet])))
                else (k, (pub, priv)))
           groups1)"

definition az_groups_of :: "Subnet list \<Rightarrow> az_groups" where
  "az_groups_of sns = fold az_add_subnet sns []"

text \<open>
  \<open>_generate_vpc_diagram_lines\<close> (lines 74-221) in pieces, each the body of one of its
  loops: \<open>igw_step\<close> (lines 86-89), \<open>nat_step\<close> (120-124), \<open>instance_step\<close> (133-138
  and 160-165), \<open>render_row\<close> (131-143 and 158-170), \<open>render_instances\<close> (127-143 and
  154-170), \<open>render_public_subnet\<close> (113-145), \<open>render_private_subnet\<close> (148-172),
  \<open>render_az\<close> (107-174), \<open>zone_step\<close> (182-186), \<open>api_step\<close> (190-193) and
  \<open>flow_edges\<close> (197-217).  The f-strings are spelled out; \<open>dq\<close> is the double quote
  and \<open>bs\<close> the backslash (the labels hold a literal backslash followed by \<open>n\<close> or
  \<open>t\<close>, which PlantUML reads as a line break or a tab).
\<close>

definition igw_step :: "InternetGateway \<Rightarrow> vpc_lines_state \<Rightarrow> vpc_lines_state" where
  "igw_step igw st =
     (let igw_id = replace_char (CHR ''-'') (CHR ''_'') (resource_id igw)
      in st\<lparr>igw_ids := igw_ids st @ [igw_id],
            lines := lines st @ [''    VPCInternetGateway('' @ igw_id @ '', '' @ dq
                                  @ ''Internet Gateway'' @ dq @ '', '' @ dq @ dq @ '')'']\<rparr>)"

definition nat_step :: "NATGateway \<Rightarrow> vpc_lines_state \<Rightarrow> vpc_lines_state" where
  "nat_step nat_gw st =
     (let nat_id = replace_char (CHR ''-'') (CHR ''_'') (resource_id nat_gw);
          nat_name = or_str (NATGateway.name nat_gw) ''NAT Gateway''
      in st\<lparr>nat_gateway_ids := nat_gateway_ids st @ [nat_id],
            lines := lines st @ [''        VPCNATGateway('' @ nat_id @ '', '' @ dq @ nat_name
                                  @ dq @ '', '' @ dq @ dq @ '') #Transparent'']\<rparr>)"

definition instance_step :: "EC2Instance \<Rightarrow> vpc_lines_state \<Rightarrow> vpc_lines_state" where
  "instance_step instance st =
     (let instance_name = or_str (EC2Instance.name instance) ''Instance'';
          instance_id = replace_char (CHR ''-'') (CHR ''_'') (resource_id instance)
      in st\<lparr>ec2_ids := ec2_ids st @ [instance_id],
            lines := lines st @ [''        EC2Instance('' @ instance_id @ '', '' @ dq
                                  @ instance_name @ bs @ ''n'' @ instance_type instance @ dq
                                  @ '', '' @ dq @ dq @ '') #Transparent'']\<rparr>)"

text \<open>One row of at most three instances, with the hidden alignment edges of the row.\<close>

definition render_row :: "EC2Instance list \<Rightarrow> vpc_lines_state \<Rightarrow> vpc_lines_state" where
  "render_row row_instances st =
     (let st1 = fold instance_step row_instances st;
          row_instance_ids =
            map (\<lambda>instance. replace_char (CHR ''-'') (CHR ''_'') (resource_id instance))
              row_instances
      in if length row_instance_ids > 1
         then fold (\<lambda>j. emit (''        '' @ row_instance_ids ! j @ '' -[hidden]r- ''
                               @ row_instance_ids ! (j + 1)))
                [0..<length row_instance_ids - 1] st1
         else st1)"

text \<open>
  The instances of one subnet, in rows of three: \<open>range(0, len(instances), 3)\<close> and the
  slice \<open>instances[i:i+3]\<close>.
\<close>

definition render_instances ::
  "NetworkTopology \<Rightarrow> Subnet \<Rightarrow> vpc_lines_state \<Rightarrow> vpc_lines_state" where
  "render_instances t subnet st =
     (let instances = get_instances_by_subnet t (resource_id subnet)
      in if instances \<noteq> []
         then fold (\<lambda>i. render_row (take 3 (drop i instances)))
                (filter (\<lambda>i. i mod 3 = 0) [0..<length instances]) st
         else st)"

definition render_public_subnet ::
  "NetworkTopology \<Rightarrow> Subnet \<Rightarrow> vpc_lines_state \<Rightarrow> py_error + vpc_lines_state" where
  "render_public_subnet t subnet st =
     (let subnet_id = replace_char (CHR ''-'') (CHR ''_'') (resource_id subnet);
          st1 = emit (''      PublicSubnetGroup('' @ subnet_id @ '', '' @ dq @ ''Public subnet''
                      @ bs @ ''n'' @ Subnet.cidr_block subnet @ dq @ '') {'') st
      in case nat_gateways t of
           None \<Rightarrow> Inl (AttributeError ''nat_gateways'')
         | Some all_nats \<Rightarrow>
             (let nat_gws = filter (\<lambda>nat_gw. NATGateway.subnet_id nat_gw = resource_id subnet)
                              all_nats;
                  st2 = fold nat_step nat_gws st1;
                  st3 = render_instances t subnet st2
              in Inr (emit ''      }'' st3)))"

definition render_private_subnet ::
  "NetworkTopology \<Rightarrow> Subnet \<Rightarrow> vpc_lines_state \<Rightarrow> vpc_lines_state" where
  "render_private_subnet t subnet st =
     (let subnet_id = replace_char (CHR ''-'') (CHR ''_'') (resource_id subnet);
          st1 = emit (''      PrivateSubnetGroup('' @ subnet_id @ '', '' @ dq @ ''Private subnet''
                      @ bs @ ''n'' @ Subnet.cidr_block subnet @ dq @ '') {'') st;
          st2 = render_instances t subnet st1
      in emit ''      }'' st2)"

definition render_az ::
  "NetworkTopology \<Rightarrow> string \<times> (Subnet list \<times> Subnet list) \<Rightarrow> vpc_lines_state
     \<Rightarrow> py_error + vpc_lines_state" where
  "render_az t grp st =
     (case grp of (az, (public, private)) \<Rightarrow>
        (let az_id = replace_char (CHR ''.'') (CHR ''_'') (replace_char (CHR ''-'') (CHR ''_'') az);
             st1 = emit [] st;
             st2 = emit (''    AvailabilityZoneGroup('' @ az_id @ '', '' @ dq @ bs @ ''t'' @ az
                         @ bs @ ''t'' @ dq @ '') {'') st1
         in case fold_err (render_public_subnet t) public st2 of
              Inl e \<Rightarrow> Inl e
            | Inr st3 \<Rightarrow> Inr (emit ''    }'' (fold (render_private_subnet t) private st3))))"

definition zone_step :: "Route53HostedZone \<Rightarrow> vpc_lines_state \<Rightarrow> vpc_lines_state" where
  "zone_step zone st =
     (let zone_id = replace_char (CHR ''-'') (CHR ''_'') (resource_id zone);
          zone_type = (if private_zone zone then ''Private'' else ''Public'')
      in emit (''Route53('' @ zone_id @ '', '' @ dq @ zone_name zone @ bs @ ''n'' @ zone_type
               @ '' Zone'' @ dq @ '', '' @ dq @ dq @ '')'') st)"

definition api_step :: "APIGateway \<Rightarrow> vpc_lines_state \<Rightarrow> vpc_lines_state" where
  "api_step api st =
     (let api_id = replace_char (CHR ''-'') (CHR ''_'') (resource_id api)
      in emit (''APIGateway('' @ api_id @ '', '' @ dq @ api_name api @ bs @ ''n'' @ api_type api
               @ dq @ '', '' @ dq @ dq @ '')'') st)"

text \<open>The edges drawn after the groups: NAT to gateway, private instance to NAT, hidden.\<close>

definition private_instance_edges ::
  "NetworkTopology \<Rightarrow> az_groups \<Rightarrow> vpc_lines_state \<Rightarrow> vpc_lines_state" where
  "private_instance_edges t groups st =
     fold (\<lambda>grp. fold (\<lambda>subnet.
                    fold (\<lambda>instance st'.
                            (let instance_id = replace_char (CHR ''-'') (CHR ''_'')
                                                 (resource_id instance)
                             in if nat_gateway_ids st' \<noteq> []
                                then emit (instance_id @ '' .u.> '' @ nat_gateway_ids st' ! 0) st'
                                else st'))
                      (get_instances_by_subnet t (resource_id subnet)))
                  (snd (snd grp)))
       groups st"

definition flow_edges :: "NetworkTopology \<Rightarrow> az_groups \<Rightarrow> vpc_lines_state \<Rightarrow> vpc_lines_state" where
  "flow_edges t groups st =
     (let st1 = (if nat_gateway_ids st \<noteq> [] \<and> igw_ids st \<noteq> []
                 then fold (\<lambda>nat_id. emit (nat_id @ '' .u.> '' @ igw_ids st ! 0))
                        (nat_gateway_ids st)
                        (emit (CHR 0x27 # '' Network Flow Connections'') st)
                 else st);
          st2 = (if ec2_ids st1 \<noteq> [] \<and> nat_gateway_ids st1 \<noteq> []
                 then private_instance_edges t groups st1
                 else st1)
      in if length (nat_gateway_ids st2) > 1 \<and> igw_ids st2 \<noteq> []
         then fold (\<lambda>nat_id. emit (nat_id @ '' .[hidden]u.> '' @ igw_ids st2 ! 0))
                (drop 1 (nat_gateway_ids st2)) st2
         else st2)"

definition generate_vpc_diagram_lines :: "NetworkTopology \<Rightarrow> py_error + string list" where
  "generate_vpc_diagram_lines t =
     (let vpc_name = or_str (VPC.name (vpc t)) (resource_id (vpc t));
          vpc_id = replace_char (CHR ''-'') (CHR ''_'') (resource_id (vpc t));
          st0 = \<lparr>lines = [''AWSCloudGroup(cloud_'' @ vpc_id @ '') {'',
                          ''  VPCGroup('' @ vpc_id @ '', '' @ dq @ vpc_name @ dq @ '') {''],
                 igw_ids = [], nat_gateway_ids = [], ec2_ids = []\<rparr>;
          st1 = fold igw_step (internet_gateways t) st0;
          groups = az_groups_of (subnets t)
      in case fold_err (render_az t) groups st1 of
           Inl e \<Rightarrow> Inl e
         | Inr st2 \<Rightarrow>
             (let st3 = emit ''}'' (emit ''  }'' st2)
              in case route53_zones t of
                   None \<Rightarrow> Inl (AttributeError ''route53_zones'')
                 | Some zones \<Rightarrow>
                     (let st4 = fold zone_step zones st3
                      in case api_gateways t of
                           None \<Rightarrow> Inl (AttributeError ''api_gateways'')
                         | Some apis \<Rightarrow>
                             (let st5 = fold api_step apis st4;
                                  st6 = emit [] st5;
                                  st7 = flow_edges t groups st6
                              in Inr (lines (emit [] st7))))))"

text \<open>The fixed lines that open the document, up to the title.\<close>

definition preamble :: "string \<Rightarrow> string list" where
  "preamble reg =
     [''@startuml'',
      ''!define AWSPuml https://raw.githubusercontent.com/awslabs/aws-icons-for-plantuml/v20.0/dist'',
      ''!include AWSPuml/AWSCommon.puml'',
      ''!include AWSPuml/AWSSimplified.puml'',
      ''!include AWSPuml/Compute/EC2.puml'',
      ''!include AWSPuml/Compute/EC2Instance.puml'',
      ''!include AWSPuml/Compute/Lambda.puml'',
      ''!include AWSPuml/NetworkingContentDelivery/VPCNATGateway.puml'',
      ''!include AWSPuml/NetworkingContentDelivery/VPCInternetGateway.puml'',
      ''!include AWSPuml/NetworkingContentDelivery/APIGateway.puml'',
      ''!include AWSPuml/NetworkingContentDelivery/Route53.puml'',
      ''!include AWSPuml/Groups/AWSCloud.puml'',
      ''!include AWSPuml/Groups/VPC.puml'',
      ''!include AWSPuml/Groups/PublicSubnet.puml'',
      ''!include AWSPuml/Groups/PrivateSubnet.puml'',
      ''!include AWSPuml/Groups/AvailabilityZone.puml'',
      [],
      ''hide stereotype'',
      ''skinparam linetype ortho'',
      [],
      ''title AWS Infrastructure - '' @ reg,
      []]"

text \<open>
  One data row of the routing-table note, and the rows of one route table, of one
  topology and of the account, as the three nested loops produce them.
\<close>

definition route_row :: "string \<Rightarrow> dict \<Rightarrow> string" where
  "route_row rt_name route =
     (let dest = take 18 (dict_get route ''destination'' ''N/A'');
          gateway = take 18 (dict_get route ''gateway_id'' ''local'');
          status = take 10 (dict_get route ''state'' ''active'')
      in ''| '' @ rt_name @ '' | '' @ dest @ '' | '' @ gateway @ '' | '' @ status @ '' |'')"

definition route_table_rows :: "RouteTable \<Rightarrow> string list" where
  "route_table_rows rt =
     (let rt_name = take 20 (or_str (RouteTable.name rt) (resource_id rt))
      in map (route_row rt_name) (take 3 (routes rt)))"

definition topology_rows :: "NetworkTopology \<Rightarrow> string list" where
  "topology_rows t = concat (map route_table_rows (take 5 (route_tables t)))"

definition note_rows :: "AccountTopology \<Rightarrow> string list" where
  "note_rows a = concat (map topology_rows (vpcs a))"

definition route_table_note :: "AccountTopology \<Rightarrow> string list" where
  "route_table_note a =
     (if list_ex (\<lambda>t. route_tables t \<noteq> []) (vpcs a)
      then [[], ''note bottom'', ''<size:12><b>Routing Tables</b></size>'',
            ''<#lightblue,#black>|= Route Table |= Destination |= Target |= Status |'']
           @ note_rows a @ [''end note'']
      else [])"

definition generate_plantuml_content :: "AccountTopology \<Rightarrow> py_error + string" where
  "generate_plantuml_content a =
     (case fold_err (\<lambda>network_topology ls.
                       case generate_vpc_diagram_lines network_topology of
                         Inl e \<Rightarrow> Inl e
                       | Inr vpc_lines \<Rightarrow> Inr (ls @ vpc_lines))
             (vpcs a) (preamble (AccountTopology.region a)) of
        Inl e \<Rightarrow> Inl e
      | Inr ls \<Rightarrow> Inr (join nl (ls @ route_table_note a @ [''@enduml''])))"

text \<open>
  \<open>PlantUMLDiagramGenerator.generate_full_diagram\<close>, for a generator built with its
  defaults (no output manager, no session directory): the content is written to the sink.
\<close>

definition plantuml_generate_full_diagram :: "AccountTopology \<Rightarrow> sink \<Rightarrow> py_error + sink" where
  "plantuml_generate_full_diagram a out =
     (case generate_plantuml_content a of
        Inl e \<Rightarrow> Inl e
      | Inr c \<Rightarrow> Inr (output_write c out))"

section \<open>Definitions used to state the properties\<close>

text \<open>
  Following the spec's words ("groups kept in first-seen order"): the distinct elements of
  a list, each at the place of its first occurrence.
\<close>

fun first_seen :: "'a list \<Rightarrow> 'a list" where
  "first_seen [] = []"
| "first_seen (x # xs) = x # first_seen (filter (\<lambda>y. y \<noteq> x) xs)"

text \<open>
  Following the spec's words (step 4 of the diagram-description algorithm): the subnets
  partitioned by availability zone, the groups in first-seen order, and within each zone
  the public and the private subnets, each in input order.
\<close>

definition az_partition :: "Subnet list \<Rightarrow> az_groups" where
  "az_partition sns =
     map (\<lambda>az. (az, (filter (\<lambda>s. availability_zone s = az \<and> map_public_ip_on_launch s) sns,
                      filter (\<lambda>s. availability_zone s = az \<and> \<not> map_public_ip_on_launch s) sns)))
       (first_seen (map availability_zone sns))"

text \<open>
  Two topologies that agree on everything the diagrams read except, possibly, on
  instances that lie in none of their subnets.
\<close>

definition same_placed :: "NetworkTopology \<Rightarrow> NetworkTopology \<Rightarrow> bool" where
  "same_placed t t' \<longleftrightarrow>
     vpc t' = vpc t \<and> subnets t' = subnets t \<and> internet_gateways t' = internet_gateways t \<and>
     nat_gateways t' = nat_gateways t \<and> route53_zones t' = route53_zones t \<and>
     api_gateways t' = api_gateways t \<and>
     list_all (\<lambda>s. get_instances_by_subnet t' (resource_id s) =
                    get_instances_by_subnet t (resource_id s)) (subnets t)"

text \<open>
  The local variables of \<open>_generate_vpc_diagram_lines\<close> form a monoid under
  componentwise concatenation; a step is appending when it only adds to the four lists,
  the same elements whatever they held before.
\<close>

definition st_nil :: vpc_lines_state where
  "st_nil = \<lparr>lines = [], igw_ids = [], nat_gateway_ids = [], ec2_ids = []\<rparr>"

definition st_app :: "vpc_lines_state \<Rightarrow> vpc_lines_state \<Rightarrow> vpc_lines_state" where
  "st_app a b =
     \<lparr>lines = lines a @ lines b, igw_ids = igw_ids a @ igw_ids b,
      nat_gateway_ids = nat_gateway_ids a @ nat_gateway_ids b, ec2_ids = ec2_ids a @ ec2_ids b\<rparr>"

definition appending :: "(vpc_lines_state \<Rightarrow> vpc_lines_state) \<Rightarrow> bool" where
  "appending F \<longleftrightarrow> (\<forall>st. F st = st_app st (F st_nil))"

text \<open>
  The lines of one AZ container, as \<open>render_az\<close> emits them: a blank line, the
  line that opens the container, the block of each public subnet of the zone, the block
  of each private subnet of the zone, and the line that closes the container.  The block
  of a subnet is what its rendering emits on its own.
\<close>

definition az_header :: "string \<Rightarrow> string" where
  "az_header az =
     ''    AvailabilityZoneGroup(''
     @ replace_char (CHR ''.'') (CHR ''_'') (replace_char (CHR ''-'') (CHR ''_'') az)
     @ '', '' @ dq @ bs @ ''t'' @ az @ bs @ ''t'' @ dq @ '') {''"

definition public_subnet_block :: "NetworkTopology \<Rightarrow> Subnet \<Rightarrow> string list" where
  "public_subnet_block t s =
     (case render_public_subnet t s st_nil of Inl e \<Rightarrow> [] | Inr st \<Rightarrow> lines st)"

definition private_subnet_block :: "NetworkTopology \<Rightarrow> Subnet \<Rightarrow> string list" where
  "private_subnet_block t s = lines (render_private_subnet t s st_nil)"

definition az_container ::
  "NetworkTopology \<Rightarrow> string \<times> (Subnet list \<times> Subnet list) \<Rightarrow> string list" where
  "az_container t grp =
     (case grp of (az, (public, private)) \<Rightarrow>
        [[], az_header az] @ concat (map (public_subnet_block t) public)
        @ concat (map (private_subnet_block t) private) @ [''    }''])"

text \<open>A later state holds the lines of an earlier one as a prefix.\<close>

definition extended :: "vpc_lines_state \<Rightarrow> vpc_lines_state \<Rightarrow> bool" where
  "extended st st' \<longleftrightarrow> (\<exists>p. lines st' = lines st @ p)"

section \<open>Example inputs\<close>

definition example_vpc :: "string \<Rightarrow> string \<Rightarrow> VPC" where
  "example_vpc rid cidr = new_VPC rid ''vpc'' ''us-east-1'' [] cidr ''available'' False None"

definition example_subnet :: "string \<Rightarrow> string \<Rightarrow> string \<Rightarrow> bool \<Rightarrow> Subnet" where
  "example_subnet rid vid az pub =
     new_Subnet rid ''subnet'' ''us-east-1'' [] vid ''10.0.1.0/24'' az ''available'' pub None"

definition example_route_table :: "string \<Rightarrow> string \<Rightarrow> dict list \<Rightarrow> RouteTable" where
  "example_route_table rid vid rs =
     new_RouteTable rid ''route_table'' ''us-east-1'' [] vid rs [] None"

definition example_gateway :: "string \<Rightarrow> string option \<Rightarrow> InternetGateway" where
  "example_gateway rid vid =
     new_InternetGateway rid ''internet_gateway'' ''us-east-1'' [] vid ''available'' None"

definition example_instance :: "string \<Rightarrow> string \<Rightarrow> string \<Rightarrow> EC2Instance" where
  "example_instance rid vid sid =
     new_EC2Instance rid ''ec2_instance'' ''us-east-1'' [] ''t3.micro'' ''running'' vid sid
       ''10.0.1.5'' [] None None"

definition example_function :: "string \<Rightarrow> string list \<Rightarrow> dict option \<Rightarrow> LambdaFunction" where
  "example_function rid sids cfg =
     new_LambdaFunction rid ''lambda_function'' ''us-east-1'' [] rid ''python3.12'' ''Active''
       sids [] cfg None"

definition vpc_a :: VPC where
  "vpc_a = example_vpc ''vpc-1'' ''10.0.0.0/16''"

definition vpc_a' :: VPC where
  "vpc_a' = example_vpc ''vpc-1'' ''10.1.0.0/16''"

definition vpc_b :: VPC where
  "vpc_b = example_vpc ''vpc-2'' ''10.2.0.0/16''"

definition subnet_a :: Subnet where
  "subnet_a = example_subnet ''subnet-1'' ''vpc-1'' ''us-east-1a'' True"

definition subnet_orphan :: Subnet where
  "subnet_orphan = example_subnet ''subnet-9'' ''vpc-9'' ''us-east-1a'' True"

definition route_table_a :: RouteTable where
  "route_table_a = example_route_table ''rtb-1'' ''vpc-1'' []"

definition route_table_orphan :: RouteTable where
  "route_table_orphan = example_route_table ''rtb-9'' ''vpc-9'' []"

definition gateway_a :: InternetGateway where
  "gateway_a = example_gateway ''igw-1'' (Some ''vpc-1'')"

definition gateway_detached :: InternetGateway where
  "gateway_detached = example_gateway ''igw-9'' None"

definition instance_a :: EC2Instance where
  "instance_a = example_instance ''i-1'' ''vpc-1'' ''subnet-1''"

definition instance_orphan :: EC2Instance where
  "instance_orphan = example_instance ''i-9'' ''vpc-9'' ''subnet-9''"

definition function_no_config :: LambdaFunction where
  "function_no_config = example_function ''fn-1'' [''subnet-1''] None"

definition example_enriched :: "NetworkTopology \<Rightarrow> NetworkTopology" where
  "example_enriched t = t\<lparr>nat_gateways := Some [], route53_zones := Some [], api_gateways := Some []\<rparr>"

definition example_route :: dict where
  "example_route = [(''destination'', ''10.0.0.0/16''), (''gateway_id'', ''local''), (''state'', ''active'')]"

definition five_routes :: "string \<Rightarrow> string \<Rightarrow> RouteTable" where
  "five_routes rid vid = example_route_table rid vid (replicate 5 example_route)"

definition seven_tables_two_vpcs :: AccountTopology where
  "seven_tables_two_vpcs =
     create_account_topology ''us-east-1''
       (map example_enriched
          (organize_network_topology [vpc_a, vpc_b] []
             [five_routes ''rtb-1'' ''vpc-1'', five_routes ''rtb-2'' ''vpc-1'',
              five_routes ''rtb-3'' ''vpc-1'', five_routes ''rtb-4'' ''vpc-1'',
              five_routes ''rtb-5'' ''vpc-2'', five_routes ''rtb-6'' ''vpc-2'',
              five_routes ''rtb-7'' ''vpc-2''] [] [] None))"

definition seven_tables_one_vpc :: AccountTopology where
  "seven_tables_one_vpc =
     create_account_topology ''us-east-1''
       (map example_enriched
          (organize_network_topology [vpc_a] []
             [five_routes ''rtb-1'' ''vpc-1'', five_routes ''rtb-2'' ''vpc-1'',
              five_routes ''rtb-3'' ''vpc-1'', five_routes ''rtb-4'' ''vpc-1'',
              five_routes ''rtb-5'' ''vpc-1'', five_routes ''rtb-6'' ''vpc-1'',
              five_routes ''rtb-7'' ''vpc-1''] [] [] None))"

definition seven_tables_topology :: NetworkTopology where
  "seven_tables_topology =
     example_enriched
       (vpc_topology []
          [five_routes ''rtb-1'' ''vpc-1'', five_routes ''rtb-2'' ''vpc-1'',
           five_routes ''rtb-3'' ''vpc-1'', five_routes ''rtb-4'' ''vpc-1'',
           five_routes ''rtb-5'' ''vpc-1'', five_routes ''rtb-6'' ''vpc-1'',
           five_routes ''rtb-7'' ''vpc-1''] [] [] [] vpc_a)"

definition instance_stray :: EC2Instance where
  "instance_stray = example_instance ''i-7'' ''vpc-1'' ''subnet-7''"

definition stray_topology :: NetworkTopology where
  "stray_topology = vpc_topology [subnet_a] [] [] [instance_a, instance_stray] [] vpc_a"

definition subnet_b :: Subnet where
  "subnet_b = example_subnet ''subnet-2'' ''vpc-1'' ''us-east-1b'' False"

definition subnet_c :: Subnet where
  "subnet_c = example_subnet ''subnet-3'' ''vpc-1'' ''us-east-1a'' False"

definition three_subnets_topology :: NetworkTopology where
  "three_subnets_topology =
     example_enriched (vpc_topology [subnet_a, subnet_b, subnet_c] [] [] [instance_a] [] vpc_a)"


section \<open>Properties of the organizer\<close>

lemmas example_defs =
  example_vpc_def example_subnet_def example_route_table_def example_gateway_def
  example_instance_def example_function_def
  new_VPC_def new_Subnet_def new_RouteTable_def new_InternetGateway_def new_EC2Instance_def
  new_LambdaFunction_def post_init_name_def truthy_str_def

lemma filter_distinct_key:
  "distinct (map f xs) \<Longrightarrow> x \<in> set xs \<Longrightarrow> filter (\<lambda>y. f y = f x) xs = [x]"
proof (induction xs)
  case Nil
  then show ?case by simp
next
  case (Cons a xs)
  show ?case
  proof (cases "a = x")
    case True
    with Cons.prems have "\<forall>y\<in>set xs. f y \<noteq> f x" by (auto simp: image_iff)
    then have "filter (\<lambda>y. f y = f x) xs = []" by (simp add: filter_empty_conv)
    with True show ?thesis by simp
  next
    case False
    with Cons.prems have "x \<in> set xs" and "f a \<noteq> f x" by (auto simp: image_iff)
    with Cons show ?thesis by simp
  qed
qed

lemma subnets_vpc_topology:
  "subnets (vpc_topology sns rts igws insts lfs v) =
     filter (\<lambda>s. Subnet.vpc_id s = resource_id v) sns"
  by (simp add: vpc_topology_def Let_def)

lemma route_tables_vpc_topology:
  "route_tables (vpc_topology sns rts igws insts lfs v) =
     filter (\<lambda>rt. RouteTable.vpc_id rt = resource_id v) rts"
  by (simp add: vpc_topology_def Let_def)

lemma internet_gateways_vpc_topology:
  "internet_gateways (vpc_topology sns rts igws insts lfs v) =
     filter (\<lambda>igw. InternetGateway.vpc_id igw = Some (resource_id v)) igws"
  by (simp add: vpc_topology_def Let_def)

lemma ec2_instances_vpc_topology:
  "ec2_instances (vpc_topology sns rts igws insts lfs v) =
     filter (\<lambda>i. EC2Instance.vpc_id i = resource_id v) insts"
  by (simp add: vpc_topology_def Let_def)

lemma lambda_functions_vpc_topology:
  "lambda_functions (vpc_topology sns rts igws insts lfs v) =
     filter (\<lambda>f. truthy_dict (vpc_config f) \<and>
                 (\<exists>s\<in>set sns. Subnet.vpc_id s = resource_id v \<and>
                              resource_id s \<in> set (subnet_ids f))) lfs"
  by (auto simp add: vpc_topology_def Let_def list_ex_iff intro!: filter_cong)

lemma vpc_vpc_topology: "vpc (vpc_topology sns rts igws insts lfs v) = v"
  by (simp add: vpc_topology_def Let_def)

text \<open>The topologies of a result list that hold a child, by the key the join compares.\<close>

lemma holders:
  assumes sel: "\<And>v. sel (topo v) = filter (\<lambda>c. key c = Some (resource_id v)) cs"
    and c: "c \<in> set cs"
  shows "filter (\<lambda>t. c \<in> set (sel t)) (map topo vs) =
           map topo (filter (\<lambda>v. Some (resource_id v) = key c) vs)"
  using c by (simp add: filter_map o_def sel eq_commute)

lemma holders_matching:
  assumes sel: "\<And>v. sel (topo v) = filter (\<lambda>c. key c = Some (resource_id v)) cs"
    and c: "c \<in> set cs" and d: "distinct (map resource_id vs)" and v: "v \<in> set vs"
    and k: "key c = Some (resource_id v)"
  shows "filter (\<lambda>t. c \<in> set (sel t)) (map topo vs) = [topo v]"
proof -
  have "filter (\<lambda>w. Some (resource_id w) = key c) vs = filter (\<lambda>w. resource_id w = resource_id v) vs"
    by (simp add: k)
  also have "\<dots> = [v]" using d v by (rule filter_distinct_key)
  finally show ?thesis
    using holders [where sel = sel and topo = topo and key = key and cs = cs and c = c and vs = vs]
      sel c by simp
qed

lemma holders_orphan:
  assumes sel: "\<And>v. sel (topo v) = filter (\<lambda>c. key c = Some (resource_id v)) cs"
    and k: "key c \<notin> Some ` resource_id ` set vs"
  shows "filter (\<lambda>t. c \<in> set (sel t)) (map topo vs) = []"
  using k by (auto simp add: filter_empty_conv sel)

text \<open>
  Claim C2, as amended.  When the input VPCs have pairwise distinct resource ids, a
  subnet, route table, internet gateway or instance of the input whose \<open>vpc_id\<close> is the
  resource id of an input VPC \<open>v\<close> is held by exactly one topology of the result, the one
  built for \<open>v\<close>.  Whatever the input, a child whose \<open>vpc_id\<close> is the resource id of
  no input VPC is held by no topology of the result.
\<close>

theorem organize_join_distinct_vpcs:
    "(distinct (map resource_id vs) \<and> v \<in> set vs \<and> sn \<in> set sns \<and> Subnet.vpc_id sn = resource_id v \<longrightarrow>
        filter (\<lambda>t. sn \<in> set (subnets t)) (organize_network_topology vs sns rts igws insts lfs)
          = [vpc_topology sns rts igws insts (case lfs of None \<Rightarrow> [] | Some l \<Rightarrow> l) v]) \<and>
     (distinct (map resource_id vs) \<and> v \<in> set vs \<and> rt \<in> set rts \<and> RouteTable.vpc_id rt = resource_id v \<longrightarrow>
        filter (\<lambda>t. rt \<in> set (route_tables t)) (organize_network_topology vs sns rts igws insts lfs)
          = [vpc_topology sns rts igws insts (case lfs of None \<Rightarrow> [] | Some l \<Rightarrow> l) v]) \<and>
     (distinct (map resource_id vs) \<and> v \<in> set vs \<and> igw \<in> set igws \<and> InternetGateway.vpc_id igw = Some (resource_id v) \<longrightarrow>
        filter (\<lambda>t. igw \<in> set (internet_gateways t))
          (organize_network_topology vs sns rts igws insts lfs)
          = [vpc_topology sns rts igws insts (case lfs of None \<Rightarrow> [] | Some l \<Rightarrow> l) v]) \<and>
     (distinct (map resource_id vs) \<and> v \<in> set vs \<and> inst \<in> set insts \<and> EC2Instance.vpc_id inst = resource_id v \<longrightarrow>
        filter (\<lambda>t. inst \<in> set (ec2_instances t))
          (organize_network_topology vs sns rts igws insts lfs)
          = [vpc_topology sns rts igws insts (case lfs of None \<Rightarrow> [] | Some l \<Rightarrow> l) v]) \<and>
     (Subnet.vpc_id sn' \<notin> resource_id ` set vs \<longrightarrow>
        filter (\<lambda>t. sn' \<in> set (subnets t)) (organize_network_topology vs sns rts igws insts lfs)
          = []) \<and>
     (RouteTable.vpc_id rt' \<notin> resource_id ` set vs \<longrightarrow>
        filter (\<lambda>t. rt' \<in> set (route_tables t))
          (organize_network_topology vs sns rts igws insts lfs) = []) \<and>
     (InternetGateway.vpc_id igw' \<notin> Some ` resource_id ` set vs \<longrightarrow>
        filter (\<lambda>t. igw' \<in> set (internet_gateways t))
          (organize_network_topology vs sns rts igws insts lfs) = []) \<and>
     (EC2Instance.vpc_id inst' \<notin> resource_id ` set vs \<longrightarrow>
        filter (\<lambda>t. inst' \<in> set (ec2_instances t))
          (organize_network_topology vs sns rts igws insts lfs) = [])"
proof -
  let ?l = "case lfs of None \<Rightarrow> [] | Some l \<Rightarrow> l"
  let ?topo = "vpc_topology sns rts igws insts ?l"
  have org: "organize_network_topology vs sns rts igws insts lfs = map ?topo vs"
    by (simp add: organize_network_topology_def)
  have s1: "\<And>v. subnets (?topo v) = filter (\<lambda>c. Some (Subnet.vpc_id c) = Some (resource_id v)) sns"
    by (simp add: subnets_vpc_topology)
  have s2: "\<And>v. route_tables (?topo v) = filter (\<lambda>c. Some (RouteTable.vpc_id c) = Some (resource_id v)) rts"
    by (simp add: route_tables_vpc_topology)
  have s3: "\<And>v. internet_gateways (?topo v) = filter (\<lambda>c. InternetGateway.vpc_id c = Some (resource_id v)) igws"
    by (simp add: internet_gateways_vpc_topology)
  have s4: "\<And>v. ec2_instances (?topo v) = filter (\<lambda>c. Some (EC2Instance.vpc_id c) = Some (resource_id v)) insts"
    by (simp add: ec2_instances_vpc_topology)
  have a1: "distinct (map resource_id vs) \<and> v \<in> set vs \<and> sn \<in> set sns \<and> Subnet.vpc_id sn = resource_id v \<longrightarrow>
        filter (\<lambda>t. sn \<in> set (subnets t)) (map ?topo vs) = [?topo v]"
    using holders_matching [where sel = subnets and topo = "?topo" and key = "\<lambda>c. Some (Subnet.vpc_id c)" and cs = sns
        and c = sn and vs = vs and v = v] s1 by simp
  have a2: "distinct (map resource_id vs) \<and> v \<in> set vs \<and> rt \<in> set rts \<and> RouteTable.vpc_id rt = resource_id v \<longrightarrow>
        filter (\<lambda>t. rt \<in> set (route_tables t)) (map ?topo vs) = [?topo v]"
    using holders_matching [where sel = route_tables and topo = "?topo" and key = "\<lambda>c. Some (RouteTable.vpc_id c)" and cs = rts
        and c = rt and vs = vs and v = v] s2 by simp
  have a3: "distinct (map resource_id vs) \<and> v \<in> set vs \<and> igw \<in> set igws \<and> InternetGateway.vpc_id igw = Some (resource_id v) \<longrightarrow>
        filter (\<lambda>t. igw \<in> set (internet_gateways t)) (map ?topo vs) = [?topo v]"
    using holders_matching [where sel = internet_gateways and topo = "?topo" and key = "InternetGateway.vpc_id" and cs = igws
        and c = igw and vs = vs and v = v] s3 by simp
  have a4: "distinct (map resource_id vs) \<and> v \<in> set vs \<and> inst \<in> set insts \<and> EC2Instance.vpc_id inst = resource_id v \<longrightarrow>
        filter (\<lambda>t. inst \<in> set (ec2_instances t)) (map ?topo vs) = [?topo v]"
    using holders_matching [where sel = ec2_instances and topo = "?topo" and key = "\<lambda>c. Some (EC2Instance.vpc_id c)" and cs = insts
        and c = inst and vs = vs and v = v] s4 by simp
  have b1: "Subnet.vpc_id sn' \<notin> resource_id ` set vs \<longrightarrow>
        filter (\<lambda>t. sn' \<in> set (subnets t)) (map ?topo vs) = []"
    using holders_orphan [where sel = subnets and topo = "?topo" and key = "\<lambda>c. Some (Subnet.vpc_id c)" and cs = sns
        and c = "sn'" and vs = vs] s1 by (auto simp: image_iff)
  have b2: "RouteTable.vpc_id rt' \<notin> resource_id ` set vs \<longrightarrow>
        filter (\<lambda>t. rt' \<in> set (route_tables t)) (map ?topo vs) = []"
    using holders_orphan [where sel = route_tables and topo = "?topo" and key = "\<lambda>c. Some (RouteTable.vpc_id c)" and cs = rts
        and c = "rt'" and vs = vs] s2 by (auto simp: image_iff)
  have b3: "InternetGateway.vpc_id igw' \<notin> Some ` resource_id ` set vs \<longrightarrow>
        filter (\<lambda>t. igw' \<in> set (internet_gateways t)) (map ?topo vs) = []"
    using holders_orphan [where sel = internet_gateways and topo = "?topo" and key = "InternetGateway.vpc_id" and cs = igws
        and c = "igw'" and vs = vs] s3 by (auto simp: image_iff)
  have b4: "EC2Instance.vpc_id inst' \<notin> resource_id ` set vs \<longrightarrow>
        filter (\<lambda>t. inst' \<in> set (ec2_instances t)) (map ?topo vs) = []"
    using holders_orphan [where sel = ec2_instances and topo = "?topo" and key = "\<lambda>c. Some (EC2Instance.vpc_id c)" and cs = insts
        and c = "inst'" and vs = vs] s4 by (auto simp: image_iff)
  show ?thesis
    unfolding org using a1 a2 a3 a4 b1 b2 b3 b4 by blast
qed

lemmas input_defs = vpc_a_def vpc_a'_def vpc_b_def subnet_a_def subnet_orphan_def route_table_a_def
  route_table_orphan_def gateway_a_def gateway_detached_def instance_a_def instance_orphan_def

text \<open>The theorem at two VPCs, a placed subnet, an orphan subnet and a detached gateway.\<close>

theorem organize_join_distinct_vpcs_witness:
  "distinct (map resource_id [vpc_a, vpc_b]) \<and>
   filter (\<lambda>t. subnet_a \<in> set (subnets t))
     (organize_network_topology [vpc_a, vpc_b] [subnet_a, subnet_orphan]
        [route_table_a, route_table_orphan] [gateway_a, gateway_detached]
        [instance_a, instance_orphan] None)
     = [vpc_topology [subnet_a, subnet_orphan] [route_table_a, route_table_orphan]
          [gateway_a, gateway_detached] [instance_a, instance_orphan] [] vpc_a] \<and>
   filter (\<lambda>t. subnet_orphan \<in> set (subnets t))
     (organize_network_topology [vpc_a, vpc_b] [subnet_a, subnet_orphan]
        [route_table_a, route_table_orphan] [gateway_a, gateway_detached]
        [instance_a, instance_orphan] None) = [] \<and>
   filter (\<lambda>t. gateway_detached \<in> set (internet_gateways t))
     (organize_network_topology [vpc_a, vpc_b] [subnet_a, subnet_orphan]
        [route_table_a, route_table_orphan] [gateway_a, gateway_detached]
        [instance_a, instance_orphan] None) = []"
proof -
  have d: "distinct (map resource_id [vpc_a, vpc_b])"
    by (simp add: input_defs example_defs)
  have h1: "vpc_a \<in> set [vpc_a, vpc_b] \<and> subnet_a \<in> set [subnet_a, subnet_orphan] \<and>
      Subnet.vpc_id subnet_a = resource_id vpc_a"
    by (simp add: input_defs example_defs)
  have h2: "Subnet.vpc_id subnet_orphan \<notin> resource_id ` set [vpc_a, vpc_b]"
    by (simp add: input_defs example_defs)
  have h3: "InternetGateway.vpc_id gateway_detached \<notin> Some ` resource_id ` set [vpc_a, vpc_b]"
    by (simp add: input_defs example_defs)
  from organize_join_distinct_vpcs [where vs = "[vpc_a, vpc_b]" and v = vpc_a and sn = subnet_a
      and sns = "[subnet_a, subnet_orphan]" and sn' = subnet_orphan and igw' = gateway_detached
      and rts = "[route_table_a, route_table_orphan]" and igws = "[gateway_a, gateway_detached]"
      and insts = "[instance_a, instance_orphan]" and lfs = None] h1 h2 h3 d
  show ?thesis by simp
qed

text \<open>
  Claim C2 as stated (for all input lists) fails when two input VPCs share a resource id:
  the subnet is placed in both topologies, and the two topologies differ.
\<close>

theorem organize_join_counterexample:
  "Subnet.vpc_id subnet_a = resource_id vpc_a \<and>
   Subnet.vpc_id subnet_a = resource_id vpc_a' \<and>
   vpc_topology [subnet_a] [] [] [] [] vpc_a \<noteq> vpc_topology [subnet_a] [] [] [] [] vpc_a' \<and>
   filter (\<lambda>t. subnet_a \<in> set (subnets t))
     (organize_network_topology [vpc_a, vpc_a'] [subnet_a] [] [] [] None)
     = [vpc_topology [subnet_a] [] [] [] [] vpc_a, vpc_topology [subnet_a] [] [] [] [] vpc_a']"
  by (simp add: organize_network_topology_def vpc_topology_def input_defs example_defs)

text \<open>
  Claim C4, as amended.  The functions placed in the topology of a VPC are exactly the
  input functions, in input order, that have a non-empty \<open>vpc_config\<close> and declare the
  resource id of at least one input subnet of that VPC among their \<open>subnet_ids\<close>.
\<close>

theorem lambda_placement:
  "map lambda_functions (organize_network_topology vs sns rts igws insts lambda_fns) =
     map (\<lambda>v. filter (\<lambda>f. truthy_dict (vpc_config f) \<and>
                        (\<exists>s\<in>set sns. Subnet.vpc_id s = resource_id v \<and>
                                     resource_id s \<in> set (subnet_ids f)))
                (case lambda_fns of None \<Rightarrow> [] | Some l \<Rightarrow> l)) vs"
  by (simp add: organize_network_topology_def lambda_functions_vpc_topology)

text \<open>
  Claim C4 as stated fails for a function whose \<open>vpc_config\<close> is absent: it declares a
  subnet placed under the VPC and is not placed in the VPC's topology.
\<close>

theorem lambda_placement_counterexample:
  "(\<exists>s\<in>set (subnets (hd (organize_network_topology [vpc_a] [subnet_a] [] [] []
                            (Some [function_no_config])))).
      resource_id s \<in> set (subnet_ids function_no_config)) \<and>
   function_no_config \<notin> set (lambda_functions
      (hd (organize_network_topology [vpc_a] [subnet_a] [] [] [] (Some [function_no_config]))))"
  by (simp add: organize_network_topology_def vpc_topology_def function_no_config_def
      truthy_dict_def input_defs example_defs)

text \<open>
  Claim C5, as amended.  The result has one topology per input VPC, in input order.  Each
  child list of a topology is the input list filtered, in input order and with every
  occurrence kept, by the join condition for the topology's VPC: nothing is deduplicated.
  So a child list has pairwise distinct resource ids whenever the input list it is
  filtered from has.
\<close>

theorem organize_no_new_duplicates:
  "map vpc (organize_network_topology vs sns rts igws insts lambda_fns) = vs \<and>
   (t \<in> set (organize_network_topology vs sns rts igws insts lambda_fns) \<longrightarrow>
      subnets t = filter (\<lambda>s. Subnet.vpc_id s = resource_id (vpc t)) sns \<and>
      route_tables t = filter (\<lambda>rt. RouteTable.vpc_id rt = resource_id (vpc t)) rts \<and>
      internet_gateways t =
        filter (\<lambda>igw. InternetGateway.vpc_id igw = Some (resource_id (vpc t))) igws \<and>
      ec2_instances t = filter (\<lambda>i. EC2Instance.vpc_id i = resource_id (vpc t)) insts \<and>
      lambda_functions t =
        filter (\<lambda>f. truthy_dict (vpc_config f) \<and>
                    (\<exists>s\<in>set sns. Subnet.vpc_id s = resource_id (vpc t) \<and>
                                 resource_id s \<in> set (subnet_ids f)))
          (case lambda_fns of None \<Rightarrow> [] | Some l \<Rightarrow> l) \<and>
      (distinct (map resource_id sns) \<longrightarrow> distinct (map resource_id (subnets t))) \<and>
      (distinct (map resource_id rts) \<longrightarrow> distinct (map resource_id (route_tables t))) \<and>
      (distinct (map resource_id igws) \<longrightarrow> distinct (map resource_id (internet_gateways t))) \<and>
      (distinct (map resource_id insts) \<longrightarrow> distinct (map resource_id (ec2_instances t))) \<and>
      (distinct (map resource_id (case lambda_fns of None \<Rightarrow> [] | Some l \<Rightarrow> l)) \<longrightarrow>
         distinct (map resource_id (lambda_functions t))))"
proof (intro conjI impI)
  show "map vpc (organize_network_topology vs sns rts igws insts lambda_fns) = vs"
    by (simp add: organize_network_topology_def o_def vpc_vpc_topology)
next
  assume "t \<in> set (organize_network_topology vs sns rts igws insts lambda_fns)"
  then obtain v where
    t: "t = vpc_topology sns rts igws insts (case lambda_fns of None \<Rightarrow> [] | Some l \<Rightarrow> l) v"
    by (auto simp add: organize_network_topology_def)
  show "subnets t = filter (\<lambda>s. Subnet.vpc_id s = resource_id (vpc t)) sns"
    unfolding t by (simp add: subnets_vpc_topology vpc_vpc_topology)
  show "route_tables t = filter (\<lambda>rt. RouteTable.vpc_id rt = resource_id (vpc t)) rts"
    unfolding t by (simp add: route_tables_vpc_topology vpc_vpc_topology)
  show "internet_gateways t =
        filter (\<lambda>igw. InternetGateway.vpc_id igw = Some (resource_id (vpc t))) igws"
    unfolding t by (simp add: internet_gateways_vpc_topology vpc_vpc_topology)
  show "ec2_instances t = filter (\<lambda>i. EC2Instance.vpc_id i = resource_id (vpc t)) insts"
    unfolding t by (simp add: ec2_instances_vpc_topology vpc_vpc_topology)
  show "lambda_functions t =
        filter (\<lambda>f. truthy_dict (vpc_config f) \<and>
                    (\<exists>s\<in>set sns. Subnet.vpc_id s = resource_id (vpc t) \<and>
                                 resource_id s \<in> set (subnet_ids f)))
          (case lambda_fns of None \<Rightarrow> [] | Some l \<Rightarrow> l)"
    unfolding t by (simp add: lambda_functions_vpc_topology vpc_vpc_topology)
  show "distinct (map resource_id (subnets t))" if "distinct (map resource_id sns)"
    using that unfolding t by (simp add: subnets_vpc_topology distinct_map_filter)
  show "distinct (map resource_id (route_tables t))" if "distinct (map resource_id rts)"
    using that unfolding t by (simp add: route_tables_vpc_topology distinct_map_filter)
  show "distinct (map resource_id (internet_gateways t))" if "distinct (map resource_id igws)"
    using that unfolding t by (simp add: internet_gateways_vpc_topology distinct_map_filter)
  show "distinct (map resource_id (ec2_instances t))" if "distinct (map resource_id insts)"
    using that unfolding t by (simp add: ec2_instances_vpc_topology distinct_map_filter)
  show "distinct (map resource_id (lambda_functions t))"
    if "distinct (map resource_id (case lambda_fns of None \<Rightarrow> [] | Some l \<Rightarrow> l))"
    using that unfolding t by (simp add: lambda_functions_vpc_topology distinct_map_filter)
qed

text \<open>The theorem at the topology of the first of two VPCs.\<close>

theorem organize_no_new_duplicates_witness:
  "vpc_topology [subnet_a, subnet_orphan] [route_table_a] [gateway_a] [instance_a] [] vpc_a
     \<in> set (organize_network_topology [vpc_a, vpc_b] [subnet_a, subnet_orphan] [route_table_a]
              [gateway_a] [instance_a] None) \<and>
   distinct (map resource_id [subnet_a, subnet_orphan]) \<and>
   distinct (map resource_id [instance_a]) \<and>
   subnets (vpc_topology [subnet_a, subnet_orphan] [route_table_a] [gateway_a] [instance_a] []
              vpc_a) = [subnet_a] \<and>
   ec2_instances (vpc_topology [subnet_a, subnet_orphan] [route_table_a] [gateway_a] [instance_a] []
              vpc_a) = [instance_a] \<and>
   distinct (map resource_id (subnets (vpc_topology [subnet_a, subnet_orphan] [route_table_a]
      [gateway_a] [instance_a] [] vpc_a))) \<and>
   distinct (map resource_id (ec2_instances (vpc_topology [subnet_a, subnet_orphan]
      [route_table_a] [gateway_a] [instance_a] [] vpc_a)))"
proof -
  let ?t = "vpc_topology [subnet_a, subnet_orphan] [route_table_a] [gateway_a] [instance_a] [] vpc_a"
  have m: "?t \<in> set (organize_network_topology [vpc_a, vpc_b] [subnet_a, subnet_orphan]
              [route_table_a] [gateway_a] [instance_a] None)"
    by (simp add: organize_network_topology_def)
  have d1: "distinct (map resource_id [subnet_a, subnet_orphan])"
    by (simp add: input_defs example_defs)
  have d2: "distinct (map resource_id [instance_a])" by simp
  note inst = organize_no_new_duplicates [where t = ?t and lambda_fns = None,
      THEN conjunct2, THEN mp, OF m]
  have v: "resource_id (vpc ?t) = ''vpc-1''"
    by (simp add: vpc_vpc_topology input_defs example_defs)
  have s: "subnets ?t = [subnet_a]"
    unfolding inst [THEN conjunct1] v by (simp add: input_defs example_defs)
  have e: "ec2_instances ?t = [instance_a]"
    unfolding inst [THEN conjunct2, THEN conjunct2, THEN conjunct2, THEN conjunct1] v
    by (simp add: input_defs example_defs)
  have c1: "distinct (map resource_id (subnets ?t))"
    by (rule inst [THEN conjunct2, THEN conjunct2, THEN conjunct2, THEN conjunct2,
          THEN conjunct2, THEN conjunct1, THEN mp, OF d1])
  have c2: "distinct (map resource_id (ec2_instances ?t))"
    by (rule inst [THEN conjunct2, THEN conjunct2, THEN conjunct2, THEN conjunct2,
          THEN conjunct2, THEN conjunct2, THEN conjunct2, THEN conjunct2, THEN conjunct1,
          THEN mp, OF d2])
  from m d1 d2 s e c1 c2 show ?thesis by (intro conjI)
qed

text \<open>
  Claim C5 as stated fails when the input holds a record twice: both occurrences are
  kept in the child list.
\<close>

theorem organize_duplicates_counterexample:
  "subnets (hd (organize_network_topology [vpc_a] [subnet_a, subnet_a] [] [] [] None))
     = [subnet_a, subnet_a] \<and>
   \<not> distinct (map resource_id
        (subnets (hd (organize_network_topology [vpc_a] [subnet_a, subnet_a] [] [] [] None))))"
  by (simp add: organize_network_topology_def vpc_topology_def input_defs example_defs)

section \<open>Properties of the text diagrams\<close>

lemma fold_output_write: "fold (\<lambda>x. output_write (f x)) xs out = out @ map f xs"
  by (induction xs arbitrary: out) (simp_all add: output_write_def)

lemma fold_appending:
  assumes "\<And>x out. f x out = out @ f x []"
  shows "fold f xs out = out @ concat (map (\<lambda>x. f x []) xs)"
proof (induction xs arbitrary: out)
  case Nil
  show ?case by simp
next
  case (Cons x xs)
  have "fold f (x # xs) out = fold f xs (f x out)" by simp
  also have "\<dots> = f x out @ concat (map (\<lambda>x. f x []) xs)" by (rule Cons.IH)
  also have "f x out = out @ f x []" by (rule assms)
  finally show ?case by simp
qed

lemma write_instance_writes:
  "write_instance g i out = out @
     [indent g 3 @ or_str (EC2Instance.name i) (resource_id i) @ nl,
      indent g 4 @ ''Type: '' @ instance_type i @ nl,
      indent g 4 @ ''State: '' @ EC2Instance.state i @ nl,
      indent g 4 @ ''Private IP: '' @ private_ip i @ nl] @
     (if truthy_str (public_ip i) then [indent g 4 @ ''Public IP: '' @ the (public_ip i) @ nl]
      else [])"
  by (simp add: write_instance_def output_write_def Let_def)

lemma write_instance_append: "write_instance g i out = out @ write_instance g i []"
  by (simp add: write_instance_writes [of g i out] write_instance_writes [of g i "[]"])

lemma write_subnet_writes:
  "write_subnet g t s out = out @
     [indent g 1 @ (if map_public_ip_on_launch s then ''Public'' else ''Private'') @ '' Subnet: ''
        @ or_str (Subnet.name s) (resource_id s) @ nl,
      indent g 2 @ ''CIDR: '' @ Subnet.cidr_block s @ nl,
      indent g 2 @ ''AZ: '' @ availability_zone s @ nl] @
     (if get_instances_by_subnet t (resource_id s) \<noteq> []
      then (indent g 2 @ ''EC2 Instances:'' @ nl)
           # concat (map (\<lambda>i. write_instance g i []) (get_instances_by_subnet t (resource_id s)))
      else []) @ [nl]"
  by (simp add: write_subnet_def output_write_def Let_def
      fold_appending [of "write_instance g", OF write_instance_append])

lemma write_subnet_append: "write_subnet g t s out = out @ write_subnet g t s []"
  by (simp add: write_subnet_writes [of g t s out] write_subnet_writes [of g t s "[]"])

lemma generate_subnet_diagram_writes:
  "generate_subnet_diagram g t out = out @
     (''VPC: '' @ or_str (VPC.name (vpc t)) (resource_id (vpc t))
               @ '' ('' @ VPC.cidr_block (vpc t) @ '')'' @ nl)
     # concat (map (\<lambda>s. write_subnet g t s []) (subnets t))"
  by (simp add: generate_subnet_diagram_def output_write_def
      fold_appending [of "write_subnet g t", OF write_subnet_append])

lemma generate_subnet_diagram_append:
  "generate_subnet_diagram g t out = out @ generate_subnet_diagram g t []"
  by (simp add: generate_subnet_diagram_writes [of g t out] generate_subnet_diagram_writes [of g t "[]"])

lemma generate_vpc_diagram_writes:
  "generate_vpc_diagram g t out = out @
     [''VPC: '' @ or_str (VPC.name (vpc t)) (resource_id (vpc t)) @ nl,
      indent g 1 @ ''CIDR: '' @ VPC.cidr_block (vpc t) @ nl,
      indent g 1 @ ''State: '' @ VPC.state (vpc t) @ nl,
      indent g 1 @ ''Default: '' @ str_bool (is_default (vpc t)) @ nl] @
     (if internet_gateways t \<noteq> []
      then (indent g 1 @ ''Internet Gateways:'' @ nl)
           # map (\<lambda>igw. indent g 2 @ resource_id igw @ '' ('' @ InternetGateway.state igw
                          @ '')'' @ nl) (internet_gateways t)
      else []) @
     (if get_public_subnets t \<noteq> []
      then [indent g 1 @ ''Public Subnets: '' @ str_nat (length (get_public_subnets t)) @ nl]
      else []) @
     (if get_private_subnets t \<noteq> []
      then [indent g 1 @ ''Private Subnets: '' @ str_nat (length (get_private_subnets t)) @ nl]
      else []) @
     (if ec2_instances t \<noteq> [] then [total_instances_line g (length (ec2_instances t))] else []) @
     [nl]"
  by (simp add: generate_vpc_diagram_def output_write_def Let_def fold_output_write)

lemma generate_vpc_diagram_append:
  "generate_vpc_diagram g t out = out @ generate_vpc_diagram g t []"
  by (simp add: generate_vpc_diagram_writes [of g t out] generate_vpc_diagram_writes [of g t "[]"])

lemma generate_account_diagram_writes:
  "generate_account_diagram g a out = out @
     [''AWS Account - Region: '' @ AccountTopology.region a @ nl,
      ''Total VPCs: '' @ str_nat (length (vpcs a)) @ nl,
      ''Total Instances: '' @ str_nat (length (get_all_instances a)) @ nl,
      ''Total Subnets: '' @ str_nat (length (get_all_subnets a)) @ nl,
      nl] @ concat (map (\<lambda>t. generate_vpc_diagram g t []) (vpcs a))"
  by (simp add: generate_account_diagram_def output_write_def Let_def
      fold_appending [of "generate_vpc_diagram g", OF generate_vpc_diagram_append])

lemma generate_account_diagram_append:
  "generate_account_diagram g a out = out @ generate_account_diagram g a []"
  by (simp add: generate_account_diagram_writes [of g a out]
      generate_account_diagram_writes [of g a "[]"])

lemma subnet_section_append:
  "output_write l (generate_subnet_diagram g t out) =
     out @ output_write l (generate_subnet_diagram g t [])"
  by (simp add: output_write_def generate_subnet_diagram_append [of g t out])

lemma generate_full_diagram_writes:
  "generate_full_diagram g a out = out @
     [replicate 60 (CHR ''='') @ nl, ''AWS CLOUD INFRASTRUCTURE MAP'' @ nl,
      replicate 60 (CHR ''='') @ nl @ nl] @
     generate_account_diagram g a [] @
     [''DETAILED VPC BREAKDOWN:'' @ nl, replicate 30 (CHR ''-'') @ nl @ nl] @
     concat (map (\<lambda>t. generate_subnet_diagram g t [] @ [replicate 30 (CHR ''-'') @ nl]) (vpcs a))"
proof -
  have f: "fold (\<lambda>vpc_topology o1.
                 output_write (replicate 30 (CHR ''-'') @ nl) (generate_subnet_diagram g vpc_topology o1))
           (vpcs a) out' = out' @ concat (map (\<lambda>t. generate_subnet_diagram g t [] @ [replicate 30 (CHR ''-'') @ nl]) (vpcs a))" for out'
    using fold_appending [of "\<lambda>t o1. output_write (replicate 30 (CHR ''-'') @ nl) (generate_subnet_diagram g t o1)" "vpcs a" out', OF subnet_section_append]
    by (simp add: output_write_def)
  show ?thesis
    unfolding generate_full_diagram_def Let_def f
    by (simp add: output_write_def generate_account_diagram_append [of g a "_ @ _"])
qed

text \<open>
  Claim C9.  Each rendering function of the text generator appends to the sink a sequence
  of strings that depends on the generator's indent size and the topology only, not on
  what the sink already holds, and it changes nothing else; so two calls on the same
  AccountTopology write the same bytes twice.  The PlantUML generator likewise appends
  its content, a function of the topology, or raises the error that the content raises.
\<close>

theorem renderer_deterministic:
  "generate_subnet_diagram g t out = out @ generate_subnet_diagram g t [] \<and>
   generate_vpc_diagram g t out = out @ generate_vpc_diagram g t [] \<and>
   generate_account_diagram g a out = out @ generate_account_diagram g a [] \<and>
   generate_full_diagram g a out = out @ generate_full_diagram g a [] \<and>
   content (generate_full_diagram g a (generate_full_diagram g a out)) =
     content out @ content (generate_full_diagram g a []) @ content (generate_full_diagram g a []) \<and>
   plantuml_generate_full_diagram a out =
     (case generate_plantuml_content a of Inl e \<Rightarrow> Inl e | Inr c \<Rightarrow> Inr (out @ [c]))"
proof -
  have full: "generate_full_diagram g a out' = out' @ generate_full_diagram g a []" for out'
    by (simp only: generate_full_diagram_writes [of g a out'] generate_full_diagram_writes [of g a "[]"] append_Nil)
  have "generate_full_diagram g a (generate_full_diagram g a out) = out @ generate_full_diagram g a [] @ generate_full_diagram g a []"
    using full [of "generate_full_diagram g a out"] full [of out] by simp
  then have twice: "content (generate_full_diagram g a (generate_full_diagram g a out)) =
     content out @ content (generate_full_diagram g a []) @ content (generate_full_diagram g a [])"
    by (simp add: content_def)
  have puml: "plantuml_generate_full_diagram a out =
     (case generate_plantuml_content a of Inl e \<Rightarrow> Inl e | Inr c \<Rightarrow> Inr (out @ [c]))"
    by (simp add: plantuml_generate_full_diagram_def output_write_def split: sum.splits)
  show ?thesis
    by (intro conjI generate_subnet_diagram_append generate_vpc_diagram_append
        generate_account_diagram_append full twice puml)
qed


subsection \<open>The instance total of the VPC-level summary\<close>



















subsection \<open>Display names\<close>

lemma post_init_name_tag: "map_of tgs ''Name'' = Some v \<Longrightarrow> post_init_name None tgs = Some v"
  by (simp add: post_init_name_def truthy_str_def)

lemma post_init_name_no_tags: "post_init_name None [] = None"
  by (simp add: post_init_name_def)

section \<open>Properties of the PlantUML diagrams\<close>

lemma set_first_seen: "set (first_seen xs) = set xs"
  by (induction xs rule: first_seen.induct) auto

lemma first_seen_snoc:
  "first_seen (xs @ [z]) = (if z \<in> set xs then first_seen xs else first_seen xs @ [z])"
  by (induction xs rule: first_seen.induct) auto

lemma distinct_first_seen: "distinct (first_seen xs)"
  by (induction xs rule: first_seen.induct) (auto simp: set_first_seen)

lemma az_add_subnet_partition: "az_add_subnet s (az_partition xs) = az_partition (xs @ [s])"
  by (auto simp add: az_add_subnet_def az_partition_def Let_def first_seen_snoc set_first_seen
      o_def image_iff filter_empty_conv empty_filter_conv)

lemma fold_az_add_subnet: "fold az_add_subnet ys (az_partition xs) = az_partition (xs @ ys)"
proof (induction ys arbitrary: xs)
  case Nil
  show ?case by simp
next
  case (Cons y ys)
  have "fold az_add_subnet (y # ys) (az_partition xs) = fold az_add_subnet ys (az_partition (xs @ [y]))"
    by (simp add: az_add_subnet_partition)
  also have "\<dots> = az_partition ((xs @ [y]) @ ys)" by (rule Cons.IH)
  finally show ?case by simp
qed

lemma az_groups_of_partition: "az_groups_of sns = az_partition sns"
  using fold_az_add_subnet [of sns "[]"] by (simp add: az_groups_of_def az_partition_def)

lemma fold_err_total:
  assumes "\<And>x s. \<exists>s'. f x s = Inr s'"
  shows "\<exists>s'. fold_err f xs s = Inr s'"
proof (induction xs arbitrary: s)
  case Nil
  show ?case by simp
next
  case (Cons x xs)
  from assms obtain s1 where "f x s = Inr s1" by blast
  with Cons.IH [of s1] show ?case by simp
qed

lemma render_public_subnet_total:
  "nat_gateways t = Some nats \<Longrightarrow> \<exists>st'. render_public_subnet t s st = Inr st'"
  by (simp add: render_public_subnet_def Let_def)

lemma render_az_total:
  assumes "nat_gateways t = Some nats"
  shows "\<exists>st'. render_az t grp st = Inr st'"
proof -
  obtain az pub priv where grp: "grp = (az, (pub, priv))" by (cases grp) auto
  from fold_err_total [of "render_public_subnet t", OF render_public_subnet_total [OF assms]]
  obtain st3 where "fold_err (render_public_subnet t) pub
      (emit (''    AvailabilityZoneGroup(''
             @ replace_char (CHR ''.'') (CHR ''_'') (replace_char (CHR ''-'') (CHR ''_'') az)
             @ '', '' @ dq @ bs @ ''t'' @ az @ bs @ ''t'' @ dq @ '') {'') (emit [] st)) = Inr st3"
    by blast
  then show ?thesis by (simp add: render_az_def grp Let_def)
qed

lemma generate_vpc_diagram_lines_total:
  assumes "nat_gateways t = Some nats" "route53_zones t = Some zones" "api_gateways t = Some apis"
  shows "\<exists>ls. generate_vpc_diagram_lines t = Inr ls"
proof -
  from fold_err_total [of "render_az t", OF render_az_total [OF assms(1)]]
  obtain st2 where "fold_err (render_az t) (az_groups_of (subnets t))
      (fold igw_step (internet_gateways t)
         \<lparr>lines = [''AWSCloudGroup(cloud_'' @ replace_char (CHR ''-'') (CHR ''_'') (resource_id (vpc t)) @ '') {'',
                   ''  VPCGroup('' @ replace_char (CHR ''-'') (CHR ''_'') (resource_id (vpc t)) @ '', '' @ dq
                     @ or_str (VPC.name (vpc t)) (resource_id (vpc t)) @ dq @ '') {''],
          igw_ids = [], nat_gateway_ids = [], ec2_ids = []\<rparr>) = Inr st2"
    by blast
  then show ?thesis using assms by (simp add: generate_vpc_diagram_lines_def Let_def)
qed

text \<open>
  With the three attributes present on every topology, the document is produced: the
  preamble, the lines of the VPCs, the routing-table note and the closing marker.
\<close>

lemma generate_plantuml_content_total:
  assumes "\<And>t. t \<in> set (vpcs a) \<Longrightarrow>
             nat_gateways t \<noteq> None \<and> route53_zones t \<noteq> None \<and> api_gateways t \<noteq> None"
  shows "\<exists>body. generate_plantuml_content a =
           Inr (join nl (preamble (AccountTopology.region a) @ body @ route_table_note a @ [''@enduml'']))"
proof -
  have "\<exists>body. fold_err (\<lambda>network_topology ls.
                       case generate_vpc_diagram_lines network_topology of
                         Inl e \<Rightarrow> Inl e
                       | Inr vpc_lines \<Rightarrow> Inr (ls @ vpc_lines)) ts ls0 = Inr (ls0 @ body)"
    if "set ts \<subseteq> set (vpcs a)" for ts ls0
    using that
  proof (induction ts arbitrary: ls0)
    case Nil
    show ?case by simp
  next
    case (Cons t ts)
    from Cons.prems assms [of t] obtain nats zones apis where
      "nat_gateways t = Some nats" "route53_zones t = Some zones" "api_gateways t = Some apis"
      by auto
    from generate_vpc_diagram_lines_total [OF this]
    obtain vl where vl: "generate_vpc_diagram_lines t = Inr vl" by blast
    from Cons.IH [of "ls0 @ vl"] Cons.prems obtain body where
      "fold_err (\<lambda>network_topology ls.
                       case generate_vpc_diagram_lines network_topology of
                         Inl e \<Rightarrow> Inl e
                       | Inr vpc_lines \<Rightarrow> Inr (ls @ vpc_lines)) ts (ls0 @ vl) = Inr ((ls0 @ vl) @ body)"
      by auto
    with vl have "fold_err (\<lambda>network_topology ls.
                       case generate_vpc_diagram_lines network_topology of
                         Inl e \<Rightarrow> Inl e
                       | Inr vpc_lines \<Rightarrow> Inr (ls @ vpc_lines)) (t # ts) ls0 = Inr (ls0 @ (vl @ body))"
      by simp
    then show ?case by blast
  qed
  from this [of "vpcs a" "preamble (AccountTopology.region a)"]
  show ?thesis by (auto simp add: generate_plantuml_content_def)
qed

lemma length_route_table_rows: "length (route_table_rows rt) = min 3 (length (routes rt))"
  by (simp add: route_table_rows_def Let_def min.commute)

lemma length_concat_le:
  assumes "\<And>x. x \<in> set xs \<Longrightarrow> length (f x) \<le> k"
  shows "length (concat (map f xs)) \<le> k * length xs"
  using assms by (induction xs) (auto simp: add_mono)

lemma length_concat_eq:
  assumes "\<And>x. x \<in> set xs \<Longrightarrow> length (f x) = k"
  shows "length (concat (map f xs)) = k * length xs"
  using assms by (induction xs) auto

lemma length_topology_rows_le: "length (topology_rows t) \<le> 15"
proof -
  have "length (topology_rows t) \<le> 3 * length (take 5 (route_tables t))"
    unfolding topology_rows_def
    by (rule length_concat_le) (simp add: length_route_table_rows)
  also have "\<dots> \<le> 3 * 5" by simp
  finally show ?thesis by simp
qed

lemma length_note_rows_le: "length (note_rows a) \<le> 15 * length (vpcs a)"
  unfolding note_rows_def by (rule length_concat_le) (rule length_topology_rows_le)

lemma length_topology_rows_full:
  assumes "5 \<le> length (route_tables t)" "\<And>rt. rt \<in> set (route_tables t) \<Longrightarrow> 3 \<le> length (routes rt)"
  shows "length (topology_rows t) = 15"
proof -
  have "length (topology_rows t) = 3 * length (take 5 (route_tables t))"
    unfolding topology_rows_def
  proof (rule length_concat_eq)
    fix rt assume "rt \<in> set (take 5 (route_tables t))"
    then have "rt \<in> set (route_tables t)" by (rule in_set_takeD)
    from assms(2) [OF this] show "length (route_table_rows rt) = 3"
      by (simp add: length_route_table_rows)
  qed
  with assms(1) show ?thesis by simp
qed

lemma note_row_fields:
  assumes "row \<in> set (note_rows a)"
  shows "\<exists>n d gw s. row = ''| '' @ n @ '' | '' @ d @ '' | '' @ gw @ '' | '' @ s @ '' |'' \<and>
           length n \<le> 20 \<and> length d \<le> 18 \<and> length gw \<le> 18 \<and> length s \<le> 10"
proof -
  from assms have "\<exists>(rt :: RouteTable) route.
      row = route_row (take 20 (or_str (RouteTable.name rt) (resource_id rt))) route"
    by (auto simp add: note_rows_def topology_rows_def route_table_rows_def Let_def)
  then obtain rt :: RouteTable and route where
    "row = route_row (take 20 (or_str (RouteTable.name rt) (resource_id rt))) route"
    by blast
  then have "row = ''| '' @ take 20 (or_str (RouteTable.name rt) (resource_id rt)) @ '' | ''
      @ take 18 (dict_get route ''destination'' ''N/A'') @ '' | ''
      @ take 18 (dict_get route ''gateway_id'' ''local'') @ '' | ''
      @ take 10 (dict_get route ''state'' ''active'') @ '' |''"
    by (simp add: route_row_def Let_def)
  moreover have "length (take 20 (or_str (RouteTable.name rt) (resource_id rt))) \<le> 20"
    "length (take 18 (dict_get route ''destination'' ''N/A'')) \<le> 18"
    "length (take 18 (dict_get route ''gateway_id'' ''local'')) \<le> 18"
    "length (take 10 (dict_get route ''state'' ''active'')) \<le> 10"
    by simp_all
  ultimately show ?thesis by blast
qed

text \<open>
  Claim C3, as amended.  The data rows of the routing-table note are, for each topology
  of the account in order, the rows of its first 5 route tables (5 per VPC, not 5
  account-wide), 3 routes at most per table: at most 15 rows per VPC.  An account whose
  only VPC has 7 route tables of 5 routes each has exactly 15 rows.  In every row the
  name has at most 20 characters, the destination and the target at most 18 and the
  status at most 10.  A document that is produced ends with the note (present when some
  topology has a route table) and the closing marker.
\<close>

theorem route_table_note_per_vpc:
  "note_rows a =
     concat (map (\<lambda>t. concat (map (\<lambda>rt. map (route_row (take 20 (or_str (RouteTable.name rt)
                                                                  (resource_id rt))))
                                          (take 3 (routes rt)))
                                (take 5 (route_tables t))))
               (vpcs a)) \<and>
   length (note_rows a) \<le> 15 * length (vpcs a) \<and>
   (vpcs a = [t] \<and> length (route_tables t) = 7 \<and>
      (\<forall>rt \<in> set (route_tables t). length (routes rt) = 5) \<longrightarrow> length (note_rows a) = 15) \<and>
   (row \<in> set (note_rows a) \<longrightarrow>
      (\<exists>n d gw s. row = ''| '' @ n @ '' | '' @ d @ '' | '' @ gw @ '' | '' @ s @ '' |'' \<and>
         length n \<le> 20 \<and> length d \<le> 18 \<and> length gw \<le> 18 \<and> length s \<le> 10)) \<and>
   (generate_plantuml_content a = Inr doc \<longrightarrow>
      (\<exists>ls. doc = join nl (ls @ route_table_note a @ [''@enduml''])) \<and>
      route_table_note a =
        (if \<exists>t \<in> set (vpcs a). route_tables t \<noteq> []
         then [[], ''note bottom'', ''<size:12><b>Routing Tables</b></size>'',
               ''<#lightblue,#black>|= Route Table |= Destination |= Target |= Status |'']
              @ note_rows a @ [''end note'']
         else []))"
proof -
  have rows: "note_rows a =
     concat (map (\<lambda>t. concat (map (\<lambda>rt. map (route_row (take 20 (or_str (RouteTable.name rt)
                                                                  (resource_id rt))))
                                          (take 3 (routes rt)))
                                (take 5 (route_tables t))))
               (vpcs a))"
    by (simp add: note_rows_def topology_rows_def [abs_def] route_table_rows_def [abs_def] Let_def)
  have one: "vpcs a = [t] \<and> length (route_tables t) = 7 \<and>
      (\<forall>rt \<in> set (route_tables t). length (routes rt) = 5) \<longrightarrow> length (note_rows a) = 15"
  proof
    assume h: "vpcs a = [t] \<and> length (route_tables t) = 7 \<and>
      (\<forall>rt \<in> set (route_tables t). length (routes rt) = 5)"
    then have "length (topology_rows t) = 15"
      by (intro length_topology_rows_full) auto
    with h show "length (note_rows a) = 15" by (simp add: note_rows_def)
  qed
  have doc: "generate_plantuml_content a = Inr doc \<longrightarrow>
      (\<exists>ls. doc = join nl (ls @ route_table_note a @ [''@enduml''])) \<and>
      route_table_note a =
        (if \<exists>t \<in> set (vpcs a). route_tables t \<noteq> []
         then [[], ''note bottom'', ''<size:12><b>Routing Tables</b></size>'',
               ''<#lightblue,#black>|= Route Table |= Destination |= Target |= Status |'']
              @ note_rows a @ [''end note'']
         else [])"
    by (auto simp add: generate_plantuml_content_def route_table_note_def list_ex_iff
        split: sum.splits)
  from rows length_note_rows_le one note_row_fields doc show ?thesis by blast
qed

lemma seven_tables_two_vpcs_rows: "length (note_rows seven_tables_two_vpcs) = 21"
  by (simp add: seven_tables_two_vpcs_def create_account_topology_def organize_network_topology_def
      vpc_topology_def example_enriched_def note_rows_def topology_rows_def
      length_route_table_rows five_routes_def input_defs example_defs)

lemmas route_example_defs =
  seven_tables_two_vpcs_def seven_tables_one_vpc_def seven_tables_topology_def
  create_account_topology_def organize_network_topology_def vpc_topology_def example_enriched_def
  five_routes_def example_route_def input_defs example_defs

lemma example_enriched_attributes:
  "nat_gateways (example_enriched t) \<noteq> None \<and> route53_zones (example_enriched t) \<noteq> None \<and>
   api_gateways (example_enriched t) \<noteq> None"
  by (simp add: example_enriched_def)

text \<open>The theorem at an account whose only VPC has 7 route tables of 5 routes each.\<close>

theorem route_table_note_per_vpc_witness:
  "vpcs seven_tables_one_vpc = [seven_tables_topology] \<and>
   length (route_tables seven_tables_topology) = 7 \<and>
   list_all (\<lambda>rt. length (routes rt) = 5) (route_tables seven_tables_topology) \<and>
   length (note_rows seven_tables_one_vpc) = 15 \<and>
   ''| rtb-1 | 10.0.0.0/16 | local | active |'' \<in> set (note_rows seven_tables_one_vpc) \<and>
   generate_plantuml_content seven_tables_one_vpc =
     Inr (projr (generate_plantuml_content seven_tables_one_vpc)) \<and>
   (\<exists>ls. projr (generate_plantuml_content seven_tables_one_vpc) =
      join nl (ls @ route_table_note seven_tables_one_vpc @ [''@enduml'']))"
proof -
  have h1: "vpcs seven_tables_one_vpc = [seven_tables_topology]"
    by (simp add: route_example_defs)
  have h2: "length (route_tables seven_tables_topology) = 7"
    by (simp add: route_example_defs)
  have h3: "list_all (\<lambda>rt. length (routes rt) = 5) (route_tables seven_tables_topology)"
    by (simp add: route_example_defs)
  have h4: "''| rtb-1 | 10.0.0.0/16 | local | active |'' \<in> set (note_rows seven_tables_one_vpc)"
    by (simp add: h1 note_rows_def topology_rows_def route_table_rows_def route_row_def
        dict_get_def or_str_def Let_def route_example_defs)
  have "\<exists>body. generate_plantuml_content seven_tables_one_vpc =
      Inr (join nl (preamble (AccountTopology.region seven_tables_one_vpc) @ body
                    @ route_table_note seven_tables_one_vpc @ [''@enduml'']))"
    by (rule generate_plantuml_content_total)
      (auto simp add: h1 seven_tables_topology_def example_enriched_def)
  then have h5: "generate_plantuml_content seven_tables_one_vpc =
      Inr (projr (generate_plantuml_content seven_tables_one_vpc))"
    by auto
  note inst = route_table_note_per_vpc [where a = seven_tables_one_vpc
      and t = seven_tables_topology and row = "''| rtb-1 | 10.0.0.0/16 | local | active |''"
      and doc = "projr (generate_plantuml_content seven_tables_one_vpc)"]
  have hyp: "vpcs seven_tables_one_vpc = [seven_tables_topology] \<and>
      length (route_tables seven_tables_topology) = 7 \<and>
      (\<forall>rt \<in> set (route_tables seven_tables_topology). length (routes rt) = 5)"
    using h1 h2 h3 by (simp add: list_all_iff)
  have c1: "length (note_rows seven_tables_one_vpc) = 15"
    by (rule inst [THEN conjunct2, THEN conjunct2, THEN conjunct1, THEN mp, OF hyp])
  have c2: "\<exists>ls. projr (generate_plantuml_content seven_tables_one_vpc) =
      join nl (ls @ route_table_note seven_tables_one_vpc @ [''@enduml''])"
    by (rule inst [THEN conjunct2, THEN conjunct2, THEN conjunct2, THEN conjunct2, THEN mp,
          OF h5, THEN conjunct1])
  from h1 h2 h3 c1 h4 h5 c2 show ?thesis by (intro conjI)
qed

text \<open>
  Claim C3 as stated fails for an account with 7 route tables of 5 routes each, 4 of them
  in one VPC and 3 in another: the document is produced and its note has 21 data rows.
\<close>

theorem route_table_note_counterexample:
  "length (concat (map route_tables (vpcs seven_tables_two_vpcs))) = 7 \<and>
   list_all (\<lambda>rt. length (routes rt) = 5) (concat (map route_tables (vpcs seven_tables_two_vpcs))) \<and>
   (\<exists>ls. generate_plantuml_content seven_tables_two_vpcs =
      Inr (join nl (ls @ [[], ''note bottom'', ''<size:12><b>Routing Tables</b></size>'',
               ''<#lightblue,#black>|= Route Table |= Destination |= Target |= Status |'']
              @ note_rows seven_tables_two_vpcs @ [''end note''] @ [''@enduml'']))) \<and>
   length (note_rows seven_tables_two_vpcs) = 21"
proof -
  have c1: "length (concat (map route_tables (vpcs seven_tables_two_vpcs))) = 7"
    by (simp add: route_example_defs)
  have c2: "list_all (\<lambda>rt. length (routes rt) = 5)
      (concat (map route_tables (vpcs seven_tables_two_vpcs)))"
    by (simp add: route_example_defs)
  have "\<exists>body. generate_plantuml_content seven_tables_two_vpcs =
      Inr (join nl (preamble (AccountTopology.region seven_tables_two_vpcs) @ body
                    @ route_table_note seven_tables_two_vpcs @ [''@enduml'']))"
    by (rule generate_plantuml_content_total)
      (auto simp add: seven_tables_two_vpcs_def create_account_topology_def
        example_enriched_def)
  moreover have "route_table_note seven_tables_two_vpcs =
      [[], ''note bottom'', ''<size:12><b>Routing Tables</b></size>'',
       ''<#lightblue,#black>|= Route Table |= Destination |= Target |= Status |'']
      @ note_rows seven_tables_two_vpcs @ [''end note'']"
    by (simp add: route_table_note_def route_example_defs)
  ultimately have c3: "\<exists>ls. generate_plantuml_content seven_tables_two_vpcs =
      Inr (join nl (ls @ [[], ''note bottom'', ''<size:12><b>Routing Tables</b></size>'',
               ''<#lightblue,#black>|= Route Table |= Destination |= Target |= Status |'']
              @ note_rows seven_tables_two_vpcs @ [''end note''] @ [''@enduml'']))"
    by (metis append.assoc)
  from c1 c2 c3 seven_tables_two_vpcs_rows show ?thesis by (intro conjI)
qed

lemma fold_err_cong:
  assumes "\<And>x s. x \<in> set xs \<Longrightarrow> f x s = g x s"
  shows "fold_err f xs s = fold_err g xs s"
  using assms by (induction xs arbitrary: s) (auto split: sum.splits)

lemma az_groups_of_subnets:
  assumes "(az, (pub, priv)) \<in> set (az_groups_of sns)"
  shows "set pub \<subseteq> set sns \<and> set priv \<subseteq> set sns"
  using assms by (auto simp add: az_groups_of_partition az_partition_def)

lemma same_placed_instances:
  "same_placed t t' \<Longrightarrow> s \<in> set (subnets t) \<Longrightarrow>
     get_instances_by_subnet t' (resource_id s) = get_instances_by_subnet t (resource_id s)"
  by (simp add: same_placed_def list_all_iff)

lemma render_instances_cong:
  "same_placed t t' \<Longrightarrow> s \<in> set (subnets t) \<Longrightarrow> render_instances t' s st = render_instances t s st"
  by (simp add: render_instances_def same_placed_instances)

lemma render_private_subnet_cong:
  "same_placed t t' \<Longrightarrow> s \<in> set (subnets t) \<Longrightarrow>
     render_private_subnet t' s st = render_private_subnet t s st"
  by (simp add: render_private_subnet_def render_instances_cong)

lemma render_public_subnet_cong:
  "same_placed t t' \<Longrightarrow> s \<in> set (subnets t) \<Longrightarrow>
     render_public_subnet t' s st = render_public_subnet t s st"
proof -
  assume sp: "same_placed t t'" and s: "s \<in> set (subnets t)"
  from sp have "nat_gateways t' = nat_gateways t" by (simp add: same_placed_def)
  then show ?thesis
    by (simp add: render_public_subnet_def render_instances_cong [OF sp s] split: option.splits)
qed

lemma render_az_cong:
  assumes "same_placed t t'" "grp \<in> set (az_groups_of (subnets t))"
  shows "render_az t' grp st = render_az t grp st"
proof -
  obtain az pub priv where grp: "grp = (az, (pub, priv))" by (cases grp) auto
  with assms(2) have sub: "set pub \<subseteq> set (subnets t)" "set priv \<subseteq> set (subnets t)"
    using az_groups_of_subnets by auto
  have pub: "fold_err (render_public_subnet t') pub st0 = fold_err (render_public_subnet t) pub st0"
    for st0
    using sub(1) by (intro fold_err_cong render_public_subnet_cong [OF assms(1)]) auto
  have priv: "fold (render_private_subnet t') priv st0 = fold (render_private_subnet t) priv st0"
    for st0
    using sub(2) by (intro fold_cong refl ext render_private_subnet_cong [OF assms(1)]) auto
  show ?thesis by (simp add: render_az_def grp Let_def pub priv cong: sum.case_cong)
qed

lemma private_instance_edges_cong:
  assumes "same_placed t t'"
  shows "private_instance_edges t' (az_groups_of (subnets t)) st =
         private_instance_edges t (az_groups_of (subnets t)) st"
  unfolding private_instance_edges_def
proof (intro fold_cong refl)
  fix grp assume g: "grp \<in> set (az_groups_of (subnets t))"
  obtain az pub priv where grp: "grp = (az, (pub, priv))" by (cases grp) auto
  with g have sub: "set priv \<subseteq> set (subnets t)" using az_groups_of_subnets by auto
  show "fold (\<lambda>subnet. fold (\<lambda>instance st'.
            let instance_id = replace_char CHR ''-'' CHR ''_'' (resource_id instance)
            in if nat_gateway_ids st' \<noteq> []
               then emit (instance_id @ '' .u.> '' @ nat_gateway_ids st' ! 0) st' else st')
          (get_instances_by_subnet t' (resource_id subnet))) (snd (snd grp)) =
        fold (\<lambda>subnet. fold (\<lambda>instance st'.
            let instance_id = replace_char CHR ''-'' CHR ''_'' (resource_id instance)
            in if nat_gateway_ids st' \<noteq> []
               then emit (instance_id @ '' .u.> '' @ nat_gateway_ids st' ! 0) st' else st')
          (get_instances_by_subnet t (resource_id subnet))) (snd (snd grp))"
  proof (rule ext, intro fold_cong refl)
    fix st0 subnet assume "subnet \<in> set (snd (snd grp))"
    with sub grp have "subnet \<in> set (subnets t)" by auto
    from same_placed_instances [OF assms this]
    show "fold (\<lambda>instance st'.
            let instance_id = replace_char CHR ''-'' CHR ''_'' (resource_id instance)
            in if nat_gateway_ids st' \<noteq> []
               then emit (instance_id @ '' .u.> '' @ nat_gateway_ids st' ! 0) st' else st')
          (get_instances_by_subnet t' (resource_id subnet)) =
        fold (\<lambda>instance st'.
            let instance_id = replace_char CHR ''-'' CHR ''_'' (resource_id instance)
            in if nat_gateway_ids st' \<noteq> []
               then emit (instance_id @ '' .u.> '' @ nat_gateway_ids st' ! 0) st' else st')
          (get_instances_by_subnet t (resource_id subnet))"
      by simp
  qed
qed

lemma generate_vpc_diagram_lines_cong:
  assumes "same_placed t t'"
  shows "generate_vpc_diagram_lines t' = generate_vpc_diagram_lines t"
proof -
  from assms have eqs: "vpc t' = vpc t" "subnets t' = subnets t"
    "internet_gateways t' = internet_gateways t" "route53_zones t' = route53_zones t"
    "api_gateways t' = api_gateways t"
    by (simp_all add: same_placed_def)
  have az: "fold_err (render_az t') (az_groups_of (subnets t)) st0 =
            fold_err (render_az t) (az_groups_of (subnets t)) st0" for st0
    by (intro fold_err_cong render_az_cong [OF assms])
  have fl: "flow_edges t' (az_groups_of (subnets t)) st0 =
            flow_edges t (az_groups_of (subnets t)) st0" for st0
    by (simp add: flow_edges_def Let_def private_instance_edges_cong [OF assms])
  show ?thesis
    by (simp add: generate_vpc_diagram_lines_def Let_def eqs az fl
        cong: sum.case_cong option.case_cong)
qed

lemma generate_subnet_diagram_cong:
  assumes "same_placed t t'"
  shows "generate_subnet_diagram g t' out = generate_subnet_diagram g t out"
proof -
  from assms have eqs: "vpc t' = vpc t" "subnets t' = subnets t"
    by (simp_all add: same_placed_def)
  have "write_subnet g t' s = write_subnet g t s" if "s \<in> set (subnets t)" for s
    by (rule ext) (simp add: write_subnet_def same_placed_instances [OF assms that])
  then have "fold (write_subnet g t') (subnets t) out0 = fold (write_subnet g t) (subnets t) out0"
    for out0
    by (intro fold_cong refl) auto
  then show ?thesis by (simp add: generate_subnet_diagram_def eqs)
qed

lemma same_placed_removeAll:
  assumes "\<forall>s \<in> set (subnets t). resource_id s \<noteq> EC2Instance.subnet_id inst"
  shows "same_placed t (t\<lparr>ec2_instances := removeAll inst (ec2_instances t)\<rparr>)"
proof -
  have "filter (\<lambda>i. EC2Instance.subnet_id i = resource_id s) (removeAll inst (ec2_instances t)) =
        filter (\<lambda>i. EC2Instance.subnet_id i = resource_id s) (ec2_instances t)"
    if "s \<in> set (subnets t)" for s
  proof -
    from assms that have "resource_id s \<noteq> EC2Instance.subnet_id inst" by blast
    then show ?thesis by (induction "ec2_instances t" arbitrary: t) (auto simp: removeAll_filter_not_eq intro!: filter_cong)
  qed
  then show ?thesis
    by (simp add: same_placed_def list_all_iff get_instances_by_subnet_def)
qed

text \<open>
  Claim C10.  An instance of the input whose \<open>vpc_id\<close> is that of the topology's VPC and
  whose \<open>subnet_id\<close> is the resource id of none of the topology's subnets is in the
  topology's \<open>ec2_instances\<close>; the VPC-level summary prints the length of that list and
  the account-level summary the length of the flattened list, both of which hold it; it
  is returned by \<open>get_instances_by_subnet\<close> for none of the topology's subnets, and
  both the subnet-level report and the lines of the PlantUML document (whatever the three
  extra attributes are) are the same as for the topology without it.
\<close>

theorem orphan_instance_counted_not_placed:
  assumes t: "t \<in> set (organize_network_topology vs sns rts igws insts lfs)"
    and i: "inst \<in> set insts"
    and v: "EC2Instance.vpc_id inst = resource_id (vpc t)"
    and o: "\<forall>s \<in> set (subnets t). resource_id s \<noteq> EC2Instance.subnet_id inst"
  shows
    "inst \<in> set (ec2_instances t) \<and>
     length (ec2_instances t) = Suc (length (remove1 inst (ec2_instances t))) \<and>
     total_instances_line g (length (ec2_instances t)) \<in> set (generate_vpc_diagram g t []) \<and>
     inst \<in> set (get_all_instances (create_account_topology reg
                    (organize_network_topology vs sns rts igws insts lfs))) \<and>
     ''Total Instances: '' @ str_nat (length (get_all_instances (create_account_topology reg
                    (organize_network_topology vs sns rts igws insts lfs)))) @ nl
       \<in> set (generate_account_diagram g (create_account_topology reg
                    (organize_network_topology vs sns rts igws insts lfs)) []) \<and>
     (\<forall>s \<in> set (subnets t). inst \<notin> set (get_instances_by_subnet t (resource_id s))) \<and>
     generate_subnet_diagram g t out =
       generate_subnet_diagram g (t\<lparr>ec2_instances := removeAll inst (ec2_instances t)\<rparr>) out \<and>
     generate_vpc_diagram_lines
         (t\<lparr>nat_gateways := nats, route53_zones := zones, api_gateways := apis\<rparr>) =
       generate_vpc_diagram_lines
         (t\<lparr>nat_gateways := nats, route53_zones := zones, api_gateways := apis,
            ec2_instances := removeAll inst (ec2_instances t)\<rparr>)"
proof -
  let ?ts = "organize_network_topology vs sns rts igws insts lfs"
  from t obtain w where
    tw: "t = vpc_topology sns rts igws insts (case lfs of None \<Rightarrow> [] | Some l \<Rightarrow> l) w"
    by (auto simp add: organize_network_topology_def)
  then have "vpc t = w" by (simp add: vpc_vpc_topology)
  with tw i v have c1: "inst \<in> set (ec2_instances t)"
    by (simp add: ec2_instances_vpc_topology)
  then have c2: "length (ec2_instances t) = Suc (length (remove1 inst (ec2_instances t)))"
    by (simp add: length_remove1) (cases "ec2_instances t"; simp)
  from c1 have "ec2_instances t \<noteq> []" by auto
  then have c3: "total_instances_line g (length (ec2_instances t))
      \<in> set (generate_vpc_diagram g t [])"
    unfolding generate_vpc_diagram_writes [of g t "[]"] by simp
  from c1 t have c4: "inst \<in> set (get_all_instances (create_account_topology reg ?ts))"
    by (auto simp add: get_all_instances_def create_account_topology_def)
  have c5: "''Total Instances: '' @ str_nat (length (get_all_instances
       (create_account_topology reg ?ts))) @ nl
       \<in> set (generate_account_diagram g (create_account_topology reg ?ts) [])"
    unfolding generate_account_diagram_writes [of g _ "[]"] by simp
  from o have c6: "\<forall>s \<in> set (subnets t). inst \<notin> set (get_instances_by_subnet t (resource_id s))"
    by (auto simp add: get_instances_by_subnet_def)
  from o have sp: "same_placed t (t\<lparr>ec2_instances := removeAll inst (ec2_instances t)\<rparr>)"
    by (rule same_placed_removeAll)
  from generate_subnet_diagram_cong [OF sp]
  have c7: "generate_subnet_diagram g t out =
       generate_subnet_diagram g (t\<lparr>ec2_instances := removeAll inst (ec2_instances t)\<rparr>) out"
    by simp
  let ?e = "t\<lparr>nat_gateways := nats, route53_zones := zones, api_gateways := apis\<rparr>"
  from o have "\<forall>s \<in> set (subnets ?e). resource_id s \<noteq> EC2Instance.subnet_id inst" by simp
  then have "same_placed ?e (?e\<lparr>ec2_instances := removeAll inst (ec2_instances ?e)\<rparr>)"
    by (rule same_placed_removeAll)
  from generate_vpc_diagram_lines_cong [OF this]
  have c8: "generate_vpc_diagram_lines ?e =
       generate_vpc_diagram_lines
         (t\<lparr>nat_gateways := nats, route53_zones := zones, api_gateways := apis,
            ec2_instances := removeAll inst (ec2_instances t)\<rparr>)"
    by simp
  from c1 c2 c3 c4 c5 c6 c7 c8 show ?thesis by (intro conjI)
qed

text \<open>The theorem at a VPC with one subnet, one instance in it and one stray instance.\<close>

theorem orphan_instance_counted_not_placed_witness:
  "stray_topology \<in> set (organize_network_topology [vpc_a] [subnet_a] [] []
                            [instance_a, instance_stray] None) \<and>
   instance_stray \<in> set [instance_a, instance_stray] \<and>
   EC2Instance.vpc_id instance_stray = resource_id (vpc stray_topology) \<and>
   list_all (\<lambda>s. resource_id s \<noteq> EC2Instance.subnet_id instance_stray) (subnets stray_topology) \<and>
   instance_stray \<in> set (ec2_instances stray_topology) \<and>
   total_instances_line \<lparr>indent_size = 2\<rparr> (length (ec2_instances stray_topology))
     \<in> set (generate_vpc_diagram \<lparr>indent_size = 2\<rparr> stray_topology []) \<and>
   length (ec2_instances stray_topology) = 2 \<and>
   generate_subnet_diagram \<lparr>indent_size = 2\<rparr> stray_topology [] =
     generate_subnet_diagram \<lparr>indent_size = 2\<rparr>
       (stray_topology\<lparr>ec2_instances := removeAll instance_stray (ec2_instances stray_topology)\<rparr>) [] \<and>
   generate_vpc_diagram_lines
       (stray_topology\<lparr>nat_gateways := Some [], route53_zones := Some [], api_gateways := Some []\<rparr>) =
     generate_vpc_diagram_lines
       (stray_topology\<lparr>nat_gateways := Some [], route53_zones := Some [], api_gateways := Some [],
          ec2_instances := removeAll instance_stray (ec2_instances stray_topology)\<rparr>)"
proof -
  have h1: "stray_topology \<in> set (organize_network_topology [vpc_a] [subnet_a] [] []
                            [instance_a, instance_stray] None)"
    by (simp add: organize_network_topology_def stray_topology_def)
  have h2: "instance_stray \<in> set [instance_a, instance_stray]" by simp
  have h3: "EC2Instance.vpc_id instance_stray = resource_id (vpc stray_topology)"
    by (simp add: stray_topology_def vpc_topology_def instance_stray_def input_defs example_defs)
  have h4: "list_all (\<lambda>s. resource_id s \<noteq> EC2Instance.subnet_id instance_stray)
      (subnets stray_topology)"
    by (simp add: stray_topology_def vpc_topology_def instance_stray_def input_defs example_defs)
  then have h4': "\<forall>s \<in> set (subnets stray_topology).
      resource_id s \<noteq> EC2Instance.subnet_id instance_stray"
    by (simp add: list_all_iff)
  have l: "length (ec2_instances stray_topology) = 2"
    by (simp add: stray_topology_def vpc_topology_def instance_stray_def input_defs example_defs)
  note inst = orphan_instance_counted_not_placed [OF h1 h2 h3 h4',
      where g = "\<lparr>indent_size = 2\<rparr>" and out = "[]" and nats = "Some []" and zones = "Some []"
        and apis = "Some []"]
  show ?thesis
    by (intro conjI h1 h2 h3 h4 l inst [THEN conjunct1]
        inst [THEN conjunct2, THEN conjunct2, THEN conjunct1]
        inst [THEN conjunct2, THEN conjunct2, THEN conjunct2, THEN conjunct2, THEN conjunct2,
          THEN conjunct2, THEN conjunct1]
        inst [THEN conjunct2, THEN conjunct2, THEN conjunct2, THEN conjunct2, THEN conjunct2,
          THEN conjunct2, THEN conjunct2])
qed

subsection \<open>The lines of the AZ containers\<close>

lemma st_app_nil [simp]: "st_app st st_nil = st" "st_app st_nil st = st"
  by (simp_all add: st_app_def st_nil_def)

lemma st_app_assoc: "st_app (st_app a b) c = st_app a (st_app b c)"
  by (simp add: st_app_def)

lemma lines_st_app [simp]: "lines (st_app a b) = lines a @ lines b"
  by (simp add: st_app_def)

lemma nat_gateway_ids_st_app [simp]:
  "nat_gateway_ids (st_app a b) = nat_gateway_ids a @ nat_gateway_ids b"
  by (simp add: st_app_def)

lemma appendingD: "appending F \<Longrightarrow> F st = st_app st (F st_nil)"
  unfolding appending_def by blast

lemma appending_id: "appending id"
  by (simp add: appending_def)

lemma appending_comp:
  assumes "appending F" "appending G"
  shows "appending (G \<circ> F)"
proof -
  have "G (F st) = st_app st (G (F st_nil))" for st
  proof -
    have "G (F st) = st_app (F st) (G st_nil)" by (rule appendingD [OF assms(2)])
    also have "\<dots> = st_app (st_app st (F st_nil)) (G st_nil)"
      by (simp only: appendingD [OF assms(1), of st])
    also have "\<dots> = st_app st (st_app (F st_nil) (G st_nil))"
      by (rule st_app_assoc)
    also have "\<dots> = st_app st (G (F st_nil))"
      by (simp only: appendingD [OF assms(2), of "F st_nil"])
    finally show ?thesis .
  qed
  then show ?thesis unfolding appending_def comp_def by blast
qed

lemma appending_fold:
  assumes "\<And>x. appending (f x)"
  shows "appending (fold f xs)"
proof (induction xs)
  case Nil
  show ?case using appending_id by (simp add: id_def)
next
  case (Cons x xs)
  have eq: "fold f (x # xs) = fold f xs \<circ> f x" by (rule ext) simp
  show ?case unfolding eq by (rule appending_comp [OF assms Cons.IH])
qed

lemma appending_emit: "appending (emit l)"
  by (simp add: appending_def emit_def st_app_def st_nil_def)

lemma appending_nat_step: "appending (nat_step n)"
  by (simp add: appending_def nat_step_def st_app_def st_nil_def Let_def)

lemma appending_instance_step: "appending (instance_step i)"
  by (simp add: appending_def instance_step_def st_app_def st_nil_def Let_def)

lemma appending_render_row: "appending (render_row r)"
proof -
  let ?ids = "map (\<lambda>instance. replace_char (CHR ''-'') (CHR ''_'') (resource_id instance)) r"
  let ?edges = "fold (\<lambda>j. emit (''        '' @ ?ids ! j @ '' -[hidden]r- '' @ ?ids ! (j + 1)))
                  [0..<length ?ids - 1]"
  have eq: "render_row r = (if length ?ids > 1 then ?edges else id) \<circ> fold instance_step r"
    by (rule ext) (simp add: render_row_def Let_def)
  have a1: "appending (fold instance_step r)"
    by (rule appending_fold) (rule appending_instance_step)
  have a2: "appending (if length ?ids > 1 then ?edges else id)"
    using appending_fold [of "\<lambda>j. emit (''        '' @ ?ids ! j @ '' -[hidden]r- '' @ ?ids ! (j + 1))",
        OF appending_emit] appending_id
    by simp
  show ?thesis unfolding eq by (rule appending_comp [OF a1 a2])
qed

lemma appending_render_instances: "appending (render_instances t s)"
proof -
  let ?is = "get_instances_by_subnet t (resource_id s)"
  let ?rows = "fold (\<lambda>i. render_row (take 3 (drop i ?is))) (filter (\<lambda>i. i mod 3 = 0) [0..<length ?is])"
  have eq: "render_instances t s = (if ?is \<noteq> [] then ?rows else id)"
    by (rule ext) (simp add: render_instances_def Let_def)
  have "appending ?rows"
    by (rule appending_fold) (rule appending_render_row)
  with appending_id show ?thesis unfolding eq by simp
qed

lemma appending_render_private_subnet: "appending (render_private_subnet t s)"
proof -
  let ?h = "''      PrivateSubnetGroup('' @ replace_char (CHR ''-'') (CHR ''_'') (resource_id s)
            @ '', '' @ dq @ ''Private subnet'' @ bs @ ''n'' @ Subnet.cidr_block s @ dq @ '') {''"
  have eq: "render_private_subnet t s = emit ''      }'' \<circ> (render_instances t s \<circ> emit ?h)"
    by (rule ext) (simp add: render_private_subnet_def Let_def)
  show ?thesis
    unfolding eq by (intro appending_comp appending_emit appending_render_instances)
qed

lemma render_public_subnet_present:
  assumes "nat_gateways t = Some nats"
  shows "\<exists>F. appending F \<and> (\<forall>st. render_public_subnet t s st = Inr (F st))"
proof -
  let ?h = "''      PublicSubnetGroup('' @ replace_char (CHR ''-'') (CHR ''_'') (resource_id s)
            @ '', '' @ dq @ ''Public subnet'' @ bs @ ''n'' @ Subnet.cidr_block s @ dq @ '') {''"
  let ?ngs = "filter (\<lambda>nat_gw. NATGateway.subnet_id nat_gw = resource_id s) nats"
  let ?F = "emit ''      }'' \<circ> (render_instances t s \<circ> (fold nat_step ?ngs \<circ> emit ?h))"
  have "appending (fold nat_step ?ngs)" by (rule appending_fold) (rule appending_nat_step)
  then have "appending ?F"
    by (intro appending_comp appending_emit appending_render_instances)
  moreover have "\<forall>st. render_public_subnet t s st = Inr (?F st)"
    using assms by (simp add: render_public_subnet_def Let_def)
  ultimately show ?thesis by blast
qed

lemma render_public_subnet_absent:
  "nat_gateways t = None \<Longrightarrow> render_public_subnet t s st = Inl (AttributeError ''nat_gateways'')"
  by (simp add: render_public_subnet_def Let_def)

lemma fold_lines:
  assumes "\<And>x. appending (f x)"
  shows "lines (fold f xs st) = lines st @ concat (map (\<lambda>x. lines (f x st_nil)) xs)"
proof (induction xs arbitrary: st)
  case Nil
  show ?case by simp
next
  case (Cons x xs)
  have "lines (fold f (x # xs) st) = lines (fold f xs (f x st))" by simp
  also have "\<dots> = lines (f x st) @ concat (map (\<lambda>x. lines (f x st_nil)) xs)" by (rule Cons.IH)
  also have "f x st = st_app st (f x st_nil)" by (rule appendingD [OF assms])
  finally show ?case by simp
qed

lemma public_subnets_lines:
  assumes "fold_err (render_public_subnet t) pub st = Inr st'"
  shows "lines st' = lines st @ concat (map (public_subnet_block t) pub)"
proof (cases "nat_gateways t")
  case None
  with assms show ?thesis
    by (cases pub) (simp_all add: render_public_subnet_absent)
next
  case (Some nats)
  define P where "P s st = projr (render_public_subnet t s st)" for s st
  have P: "render_public_subnet t s st0 = Inr (P s st0)" and aP: "appending (P s)" for s st0
  proof -
    from render_public_subnet_present [OF Some, of s] obtain F where
      F: "appending F" "\<forall>st. render_public_subnet t s st = Inr (F st)" by blast
    then have "P s = F" by (intro ext) (simp add: P_def)
    with F show "render_public_subnet t s st0 = Inr (P s st0)" "appending (P s)" by simp_all
  qed
  have "fold_err (render_public_subnet t) xs st0 = Inr (fold P xs st0)" for xs st0
    by (induction xs arbitrary: st0) (simp_all add: P)
  with assms have "st' = fold P pub st" by simp
  moreover have "(\<lambda>s. lines (P s st_nil)) = public_subnet_block t"
    by (rule ext) (simp add: public_subnet_block_def P)
  ultimately show ?thesis using fold_lines [of P pub st, OF aP] by simp
qed

lemma render_az_lines:
  assumes "render_az t grp st = Inr st'"
  shows "lines st' = lines st @ az_container t grp"
proof -
  obtain az pub priv where grp: "grp = (az, (pub, priv))" by (cases grp) auto
  let ?st2 = "emit (az_header az) (emit [] st)"
  from assms obtain st3 where
    st3: "fold_err (render_public_subnet t) pub ?st2 = Inr st3"
    and st': "st' = emit ''    }'' (fold (render_private_subnet t) priv st3)"
    by (auto simp add: render_az_def grp Let_def az_header_def split: sum.splits)
  from public_subnets_lines [OF st3]
  have "lines st3 = lines st @ [[], az_header az] @ concat (map (public_subnet_block t) pub)"
    by (simp add: emit_def)
  moreover have "lines (fold (render_private_subnet t) priv st3) =
      lines st3 @ concat (map (private_subnet_block t) priv)"
    using fold_lines [of "render_private_subnet t" priv st3, OF appending_render_private_subnet]
    by (simp add: private_subnet_block_def [abs_def])
  ultimately show ?thesis by (simp add: st' emit_def az_container_def grp)
qed

lemma render_azs_lines:
  assumes "fold_err (render_az t) groups st = Inr st'"
  shows "lines st' = lines st @ concat (map (az_container t) groups)"
  using assms
proof (induction groups arbitrary: st)
  case Nil
  then show ?case by simp
next
  case (Cons grp groups)
  from Cons.prems obtain st1 where
    st1: "render_az t grp st = Inr st1" and rest: "fold_err (render_az t) groups st1 = Inr st'"
    by (auto split: sum.splits)
  from render_az_lines [OF st1] Cons.IH [OF rest] show ?case by simp
qed

lemma extended_refl: "extended st st"
  by (simp add: extended_def)

lemma extended_emit: "extended a b \<Longrightarrow> extended a (emit l b)"
  by (auto simp add: extended_def emit_def)

lemma extended_if: "extended a b \<Longrightarrow> extended a c \<Longrightarrow> extended a (if P then b else c)"
  by simp

lemma extended_fold:
  assumes "\<And>x s. extended s (f x s)" and "extended a b"
  shows "extended a (fold f xs b)"
  using assms(2)
proof (induction xs arbitrary: b)
  case Nil
  then show ?case by simp
next
  case (Cons x xs)
  from assms(1) [of b x] Cons.prems have "extended a (f x b)"
    by (auto simp add: extended_def)
  from Cons.IH [OF this] show ?case by simp
qed

lemma extended_zone_step: "extended a b \<Longrightarrow> extended a (zone_step z b)"
  by (simp add: zone_step_def Let_def extended_emit)

lemma extended_api_step: "extended a b \<Longrightarrow> extended a (api_step z b)"
  by (simp add: api_step_def Let_def extended_emit)

lemma extended_private_instance_edges:
  "extended a b \<Longrightarrow> extended a (private_instance_edges t groups b)"
  unfolding private_instance_edges_def Let_def
  by (intro extended_fold extended_if extended_emit extended_refl)

lemma extended_flow_edges:
  assumes "extended a b"
  shows "extended a (flow_edges t groups b)"
  unfolding flow_edges_def Let_def
  by (intro extended_fold extended_if extended_emit extended_private_instance_edges
      extended_refl assms)

lemma generate_vpc_diagram_lines_containers:
  assumes "generate_vpc_diagram_lines t = Inr ls"
  shows "\<exists>pre post. ls = pre @ concat (map (az_container t) (az_groups_of (subnets t))) @ post"
proof -
  let ?groups = "az_groups_of (subnets t)"
  let ?st1 = "fold igw_step (internet_gateways t)
      \<lparr>lines = [''AWSCloudGroup(cloud_'' @ replace_char (CHR ''-'') (CHR ''_'') (resource_id (vpc t)) @ '') {'',
                ''  VPCGroup('' @ replace_char (CHR ''-'') (CHR ''_'') (resource_id (vpc t)) @ '', '' @ dq
                  @ or_str (VPC.name (vpc t)) (resource_id (vpc t)) @ dq @ '') {''],
       igw_ids = [], nat_gateway_ids = [], ec2_ids = []\<rparr>"
  from assms obtain st2 zones apis where
    st2: "fold_err (render_az t) ?groups ?st1 = Inr st2"
    and ls: "ls = lines (emit [] (flow_edges t ?groups (emit [] (fold api_step apis
                (fold zone_step zones (emit ''}'' (emit ''  }'' st2)))))))"
    by (auto simp add: generate_vpc_diagram_lines_def Let_def split: sum.splits option.splits)
  from render_azs_lines [OF st2]
  have a: "lines st2 = lines ?st1 @ concat (map (az_container t) ?groups)" .
  have "extended st2 (emit [] (flow_edges t ?groups (emit [] (fold api_step apis
                (fold zone_step zones (emit ''}'' (emit ''  }'' st2)))))))"
    by (intro extended_emit extended_flow_edges extended_fold extended_api_step
        extended_zone_step extended_refl)
  with ls obtain post where "ls = lines st2 @ post" by (auto simp add: extended_def)
  with a have "ls = lines ?st1 @ concat (map (az_container t) ?groups) @ post" by simp
  then show ?thesis by blast
qed

lemma private_subnet_block_shape:
  "\<exists>body. private_subnet_block t s =
     (''      PrivateSubnetGroup('' @ replace_char (CHR ''-'') (CHR ''_'') (resource_id s)
        @ '', '' @ dq @ ''Private subnet'' @ bs @ ''n'' @ Subnet.cidr_block s @ dq @ '') {'')
     # body @ [''      }'']"
proof -
  let ?h = "''      PrivateSubnetGroup('' @ replace_char (CHR ''-'') (CHR ''_'') (resource_id s)
            @ '', '' @ dq @ ''Private subnet'' @ bs @ ''n'' @ Subnet.cidr_block s @ dq @ '') {''"
  have "render_instances t s (emit ?h st_nil) = st_app (emit ?h st_nil) (render_instances t s st_nil)"
    by (rule appendingD [OF appending_render_instances])
  then have "private_subnet_block t s = ?h # lines (render_instances t s st_nil) @ [''      }'']"
    by (simp add: private_subnet_block_def render_private_subnet_def Let_def emit_def st_nil_def)
  then show ?thesis by blast
qed

lemma public_subnet_block_shape:
  assumes "nat_gateways t \<noteq> None"
  shows "\<exists>body. public_subnet_block t s =
     (''      PublicSubnetGroup('' @ replace_char (CHR ''-'') (CHR ''_'') (resource_id s)
        @ '', '' @ dq @ ''Public subnet'' @ bs @ ''n'' @ Subnet.cidr_block s @ dq @ '') {'')
     # body @ [''      }'']"
proof -
  from assms obtain nats where nats: "nat_gateways t = Some nats" by auto
  let ?h = "''      PublicSubnetGroup('' @ replace_char (CHR ''-'') (CHR ''_'') (resource_id s)
            @ '', '' @ dq @ ''Public subnet'' @ bs @ ''n'' @ Subnet.cidr_block s @ dq @ '') {''"
  let ?ngs = "filter (\<lambda>nat_gw. NATGateway.subnet_id nat_gw = resource_id s) nats"
  have "appending (render_instances t s \<circ> fold nat_step ?ngs)"
    by (intro appending_comp appending_fold appending_nat_step appending_render_instances)
  from appendingD [OF this, of "emit ?h st_nil"]
  have "render_instances t s (fold nat_step ?ngs (emit ?h st_nil)) =
      st_app (emit ?h st_nil) (render_instances t s (fold nat_step ?ngs st_nil))"
    by simp
  then have "public_subnet_block t s =
      ?h # lines (render_instances t s (fold nat_step ?ngs st_nil)) @ [''      }'']"
    by (simp add: public_subnet_block_def render_public_subnet_def nats Let_def emit_def st_nil_def)
  then show ?thesis by blast
qed

text \<open>
  Claim C6.  The AZ groups that the generator iterates over are: one group per
  availability zone of the subnet list, in the order in which each zone is first seen;
  the group of a zone holds every subnet of that zone, wherever it stands in the list,
  the public ones and the private ones each in input order.  In a document that is
  produced, the lines of a VPC hold, one after the other in that order, one AZ container
  per group: between the line that opens the container and the line that closes it stand
  the blocks of the group's public subnets and then those of its private subnets, each
  block opened by the subnet's own group line and closed by a brace line.
\<close>

theorem az_grouping:
  "az_groups_of sns =
     map (\<lambda>az. (az, (filter (\<lambda>s. availability_zone s = az \<and> map_public_ip_on_launch s) sns,
                      filter (\<lambda>s. availability_zone s = az \<and> \<not> map_public_ip_on_launch s) sns)))
       (first_seen (map availability_zone sns)) \<and>
   (generate_vpc_diagram_lines t = Inr ls \<longrightarrow>
      (\<exists>pre post. ls = pre @ concat (map (az_container t) (az_groups_of (subnets t))) @ post)) \<and>
   az_container t (az, (public, private)) =
     [[], az_header az] @ concat (map (public_subnet_block t) public)
     @ concat (map (private_subnet_block t) private) @ [''    }''] \<and>
   (nat_gateways t \<noteq> None \<longrightarrow>
      (\<exists>body. public_subnet_block t s =
         (''      PublicSubnetGroup('' @ replace_char (CHR ''-'') (CHR ''_'') (resource_id s)
            @ '', '' @ dq @ ''Public subnet'' @ bs @ ''n'' @ Subnet.cidr_block s @ dq @ '') {'')
         # body @ [''      }''])) \<and>
   (\<exists>body. private_subnet_block t s =
      (''      PrivateSubnetGroup('' @ replace_char (CHR ''-'') (CHR ''_'') (resource_id s)
         @ '', '' @ dq @ ''Private subnet'' @ bs @ ''n'' @ Subnet.cidr_block s @ dq @ '') {'')
      # body @ [''      }''])"
proof -
  have g: "az_groups_of sns =
     map (\<lambda>az. (az, (filter (\<lambda>s. availability_zone s = az \<and> map_public_ip_on_launch s) sns,
                      filter (\<lambda>s. availability_zone s = az \<and> \<not> map_public_ip_on_launch s) sns)))
       (first_seen (map availability_zone sns))"
    using az_groups_of_partition [of sns] by (simp add: az_partition_def)
  have c: "az_container t (az, (public, private)) =
     [[], az_header az] @ concat (map (public_subnet_block t) public)
     @ concat (map (private_subnet_block t) private) @ [''    }'']"
    by (simp add: az_container_def)
  from g generate_vpc_diagram_lines_containers c public_subnet_block_shape
    private_subnet_block_shape
  show ?thesis by (intro conjI impI)
qed

text \<open>
  The theorem at a VPC whose first and third subnets share a zone that the second one
  does not.
\<close>

theorem az_grouping_witness:
  "generate_vpc_diagram_lines three_subnets_topology =
     Inr (projr (generate_vpc_diagram_lines three_subnets_topology)) \<and>
   (\<exists>pre post. projr (generate_vpc_diagram_lines three_subnets_topology) =
      pre @ concat (map (az_container three_subnets_topology)
                      (az_groups_of (subnets three_subnets_topology))) @ post) \<and>
   subnets three_subnets_topology = [subnet_a, subnet_b, subnet_c] \<and>
   az_groups_of (subnets three_subnets_topology) =
     [(''us-east-1a'', ([subnet_a], [subnet_c])), (''us-east-1b'', ([], [subnet_b]))] \<and>
   nat_gateways three_subnets_topology \<noteq> None \<and>
   (\<exists>body. public_subnet_block three_subnets_topology subnet_a =
      (''      PublicSubnetGroup('' @ replace_char (CHR ''-'') (CHR ''_'') (resource_id subnet_a)
         @ '', '' @ dq @ ''Public subnet'' @ bs @ ''n'' @ Subnet.cidr_block subnet_a @ dq @ '') {'')
      # body @ [''      }''])"
proof -
  have n: "nat_gateways three_subnets_topology \<noteq> None"
    by (simp add: three_subnets_topology_def example_enriched_def)
  have "\<exists>ls. generate_vpc_diagram_lines three_subnets_topology = Inr ls"
    by (rule generate_vpc_diagram_lines_total [of _ "[]" "[]" "[]"])
      (simp_all add: three_subnets_topology_def example_enriched_def)
  then have h: "generate_vpc_diagram_lines three_subnets_topology =
     Inr (projr (generate_vpc_diagram_lines three_subnets_topology))"
    by auto
  have sn: "subnets three_subnets_topology = [subnet_a, subnet_b, subnet_c]"
    by (simp add: three_subnets_topology_def example_enriched_def vpc_topology_def
        subnet_b_def subnet_c_def input_defs example_defs)
  note inst = az_grouping [where t = three_subnets_topology and s = subnet_a
      and ls = "projr (generate_vpc_diagram_lines three_subnets_topology)"
      and sns = "[subnet_a, subnet_b, subnet_c]"]
  have gr: "az_groups_of (subnets three_subnets_topology) =
     [(''us-east-1a'', ([subnet_a], [subnet_c])), (''us-east-1b'', ([], [subnet_b]))]"
    unfolding sn inst [THEN conjunct1]
    by (simp add: subnet_b_def subnet_c_def input_defs example_defs)
  show ?thesis
    by (intro conjI h sn gr n inst [THEN conjunct2, THEN conjunct1, THEN mp, OF h]
        inst [THEN conjunct2, THEN conjunct2, THEN conjunct2, THEN conjunct1, THEN mp, OF n])
qed

subsection \<open>The PlantUML pass on the topologies of its input type\<close>




subsection \<open>Display names in the reports and in the document\<close>

lemma extended_igw_step: "extended a b \<Longrightarrow> extended a (igw_step i b)"
  by (auto simp add: extended_def igw_step_def Let_def)

lemma generate_vpc_diagram_lines_header:
  assumes "generate_vpc_diagram_lines t = Inr ls"
  shows "\<exists>rest. ls =
    [''AWSCloudGroup(cloud_'' @ replace_char (CHR ''-'') (CHR ''_'') (resource_id (vpc t)) @ '') {'',
     ''  VPCGroup('' @ replace_char (CHR ''-'') (CHR ''_'') (resource_id (vpc t)) @ '', '' @ dq
       @ or_str (VPC.name (vpc t)) (resource_id (vpc t)) @ dq @ '') {''] @ rest"
proof -
  let ?groups = "az_groups_of (subnets t)"
  let ?st0 = "\<lparr>lines = [''AWSCloudGroup(cloud_'' @ replace_char (CHR ''-'') (CHR ''_'') (resource_id (vpc t)) @ '') {'',
                ''  VPCGroup('' @ replace_char (CHR ''-'') (CHR ''_'') (resource_id (vpc t)) @ '', '' @ dq
                  @ or_str (VPC.name (vpc t)) (resource_id (vpc t)) @ dq @ '') {''],
       igw_ids = [], nat_gateway_ids = [], ec2_ids = []\<rparr>"
  let ?st1 = "fold igw_step (internet_gateways t) ?st0"
  from assms obtain st2 zones apis where
    st2: "fold_err (render_az t) ?groups ?st1 = Inr st2"
    and ls: "ls = lines (emit [] (flow_edges t ?groups (emit [] (fold api_step apis
                (fold zone_step zones (emit ''}'' (emit ''  }'' st2)))))))"
    by (auto simp add: generate_vpc_diagram_lines_def Let_def split: sum.splits option.splits)
  have "extended ?st0 ?st1"
    by (intro extended_fold extended_igw_step extended_refl)
  then obtain p where p: "lines ?st1 = lines ?st0 @ p" by (auto simp add: extended_def)
  from render_azs_lines [OF st2]
  have a: "lines st2 = lines ?st1 @ concat (map (az_container t) ?groups)" .
  have "extended st2 (emit [] (flow_edges t ?groups (emit [] (fold api_step apis
                (fold zone_step zones (emit ''}'' (emit ''  }'' st2)))))))"
    by (intro extended_emit extended_flow_edges extended_fold extended_api_step
        extended_zone_step extended_refl)
  with ls obtain post where "ls = lines st2 @ post" by (auto simp add: extended_def)
  with a p have "ls = lines ?st0 @ (p @ concat (map (az_container t) ?groups) @ post)" by simp
  then show ?thesis by auto
qed

text \<open>
  Claim C8, as amended.  A resource constructed with no explicit name and with tags that
  hold the key \<open>Name\<close> has the tag's value as its display name; constructed with empty
  tags it has no display name (all eight classes).  For a nameless resource the text
  reports print the resource id (VPC, subnet, instance), and so do the VPC group of the
  PlantUML document and the rows of its routing-table note; the PlantUML document labels
  a nameless instance \<open>Instance\<close> and a nameless NAT gateway \<open>NAT Gateway\<close>.
\<close>

theorem name_derivation:
  "(map_of tgs ''Name'' = Some v \<longrightarrow>
      VPC.name (new_VPC rid rtype reg tgs cidr st dflt None) = Some v \<and>
      Subnet.name (new_Subnet rid rtype reg tgs vid cidr az st pub None) = Some v \<and>
      RouteTable.name (new_RouteTable rid rtype reg tgs vid rs assocs None) = Some v \<and>
      InternetGateway.name (new_InternetGateway rid rtype reg tgs ovid st None) = Some v \<and>
      EC2Instance.name (new_EC2Instance rid rtype reg tgs ity st vid sid pip sgs opub None) = Some v \<and>
      LambdaFunction.name (new_LambdaFunction rid rtype reg tgs fn rt st sids sgids cfg None) = Some v \<and>
      Route53HostedZone.name (new_Route53HostedZone rid rtype reg tgs zn zid priv cnt assocs None)
        = Some v \<and>
      APIGateway.name (new_APIGateway rid rtype reg tgs an aty proto ety links None) = Some v) \<and>
   VPC.name (new_VPC rid rtype reg [] cidr st dflt None) = None \<and>
   Subnet.name (new_Subnet rid rtype reg [] vid cidr az st pub None) = None \<and>
   RouteTable.name (new_RouteTable rid rtype reg [] vid rs assocs None) = None \<and>
   InternetGateway.name (new_InternetGateway rid rtype reg [] ovid st None) = None \<and>
   EC2Instance.name (new_EC2Instance rid rtype reg [] ity st vid sid pip sgs opub None) = None \<and>
   LambdaFunction.name (new_LambdaFunction rid rtype reg [] fn rt st sids sgids cfg None) = None \<and>
   Route53HostedZone.name (new_Route53HostedZone rid rtype reg [] zn zid priv cnt assocs None)
     = None \<and>
   APIGateway.name (new_APIGateway rid rtype reg [] an aty proto ety links None) = None \<and>
   hd (generate_subnet_diagram g (t\<lparr>vpc := new_VPC rid rtype reg [] cidr st dflt None\<rparr>) [])
     = ''VPC: '' @ rid @ '' ('' @ cidr @ '')'' @ nl \<and>
   hd (generate_vpc_diagram g (t\<lparr>vpc := new_VPC rid rtype reg [] cidr st dflt None\<rparr>) [])
     = ''VPC: '' @ rid @ nl \<and>
   hd (write_subnet g t (new_Subnet rid rtype reg [] vid cidr az st pub None) [])
     = indent g 1 @ (if pub then ''Public'' else ''Private'') @ '' Subnet: '' @ rid @ nl \<and>
   hd (write_instance g (new_EC2Instance rid rtype reg [] ity st vid sid pip sgs opub None) [])
     = indent g 3 @ rid @ nl \<and>
   (generate_vpc_diagram_lines (t\<lparr>vpc := new_VPC rid rtype reg [] cidr st dflt None\<rparr>) = Inr ls \<longrightarrow>
      (\<exists>rest. ls =
         [''AWSCloudGroup(cloud_'' @ replace_char (CHR ''-'') (CHR ''_'') rid @ '') {'',
          ''  VPCGroup('' @ replace_char (CHR ''-'') (CHR ''_'') rid @ '', '' @ dq @ rid @ dq
            @ '') {''] @ rest)) \<and>
   route_table_rows (new_RouteTable rid rtype reg [] vid rs assocs None)
     = map (route_row (take 20 rid)) (take 3 rs) \<and>
   lines (instance_step (new_EC2Instance rid rtype reg [] ity st vid sid pip sgs opub None) ps)
     = lines ps @ [''        EC2Instance('' @ replace_char (CHR ''-'') (CHR ''_'') rid @ '', '' @ dq
                    @ ''Instance'' @ bs @ ''n'' @ ity @ dq @ '', '' @ dq @ dq
                    @ '') #Transparent''] \<and>
   lines (nat_step (ngw\<lparr>NATGateway.name := None\<rparr>) ps)
     = lines ps @ [''        VPCNATGateway('' @ replace_char (CHR ''-'') (CHR ''_'') (resource_id ngw)
                    @ '', '' @ dq @ ''NAT Gateway'' @ dq @ '', '' @ dq @ dq @ '') #Transparent'']"
proof -
  have tagged: "map_of tgs ''Name'' = Some v \<longrightarrow>
      VPC.name (new_VPC rid rtype reg tgs cidr st dflt None) = Some v \<and>
      Subnet.name (new_Subnet rid rtype reg tgs vid cidr az st pub None) = Some v \<and>
      RouteTable.name (new_RouteTable rid rtype reg tgs vid rs assocs None) = Some v \<and>
      InternetGateway.name (new_InternetGateway rid rtype reg tgs ovid st None) = Some v \<and>
      EC2Instance.name (new_EC2Instance rid rtype reg tgs ity st vid sid pip sgs opub None) = Some v \<and>
      LambdaFunction.name (new_LambdaFunction rid rtype reg tgs fn rt st sids sgids cfg None) = Some v \<and>
      Route53HostedZone.name (new_Route53HostedZone rid rtype reg tgs zn zid priv cnt assocs None)
        = Some v \<and>
      APIGateway.name (new_APIGateway rid rtype reg tgs an aty proto ety links None) = Some v"
    by (simp add: new_VPC_def new_Subnet_def new_RouteTable_def new_InternetGateway_def
        new_EC2Instance_def new_LambdaFunction_def new_Route53HostedZone_def new_APIGateway_def
        post_init_name_tag)
  have untagged:
    "VPC.name (new_VPC rid rtype reg [] cidr st dflt None) = None"
    "Subnet.name (new_Subnet rid rtype reg [] vid cidr az st pub None) = None"
    "RouteTable.name (new_RouteTable rid rtype reg [] vid rs assocs None) = None"
    "InternetGateway.name (new_InternetGateway rid rtype reg [] ovid st None) = None"
    "EC2Instance.name (new_EC2Instance rid rtype reg [] ity st vid sid pip sgs opub None) = None"
    "LambdaFunction.name (new_LambdaFunction rid rtype reg [] fn rt st sids sgids cfg None) = None"
    "Route53HostedZone.name (new_Route53HostedZone rid rtype reg [] zn zid priv cnt assocs None)
       = None"
    "APIGateway.name (new_APIGateway rid rtype reg [] an aty proto ety links None) = None"
    by (simp_all add: new_VPC_def new_Subnet_def new_RouteTable_def new_InternetGateway_def
        new_EC2Instance_def new_LambdaFunction_def new_Route53HostedZone_def new_APIGateway_def
        post_init_name_no_tags)
  have ids:
    "resource_id (new_VPC rid rtype reg [] cidr st dflt None) = rid"
    "VPC.cidr_block (new_VPC rid rtype reg [] cidr st dflt None) = cidr"
    "resource_id (new_Subnet rid rtype reg [] vid cidr az st pub None) = rid"
    "map_public_ip_on_launch (new_Subnet rid rtype reg [] vid cidr az st pub None) = pub"
    "resource_id (new_EC2Instance rid rtype reg [] ity st vid sid pip sgs opub None) = rid"
    "instance_type (new_EC2Instance rid rtype reg [] ity st vid sid pip sgs opub None) = ity"
    "resource_id (new_RouteTable rid rtype reg [] vid rs assocs None) = rid"
    "routes (new_RouteTable rid rtype reg [] vid rs assocs None) = rs"
    by (simp_all add: new_VPC_def new_Subnet_def new_EC2Instance_def new_RouteTable_def)
  have r1: "hd (generate_subnet_diagram g (t\<lparr>vpc := new_VPC rid rtype reg [] cidr st dflt None\<rparr>) [])
     = ''VPC: '' @ rid @ '' ('' @ cidr @ '')'' @ nl"
    by (simp add: generate_subnet_diagram_writes untagged ids or_str_def)
  have r2: "hd (generate_vpc_diagram g (t\<lparr>vpc := new_VPC rid rtype reg [] cidr st dflt None\<rparr>) [])
     = ''VPC: '' @ rid @ nl"
    by (simp add: generate_vpc_diagram_writes untagged ids or_str_def)
  have r3: "hd (write_subnet g t (new_Subnet rid rtype reg [] vid cidr az st pub None) [])
     = indent g 1 @ (if pub then ''Public'' else ''Private'') @ '' Subnet: '' @ rid @ nl"
    by (simp add: write_subnet_writes untagged ids or_str_def)
  have r4: "hd (write_instance g (new_EC2Instance rid rtype reg [] ity st vid sid pip sgs opub None) [])
     = indent g 3 @ rid @ nl"
    by (simp add: write_instance_writes untagged ids or_str_def)
  have p1: "generate_vpc_diagram_lines (t\<lparr>vpc := new_VPC rid rtype reg [] cidr st dflt None\<rparr>) = Inr ls \<longrightarrow>
      (\<exists>rest. ls =
         [''AWSCloudGroup(cloud_'' @ replace_char (CHR ''-'') (CHR ''_'') rid @ '') {'',
          ''  VPCGroup('' @ replace_char (CHR ''-'') (CHR ''_'') rid @ '', '' @ dq @ rid @ dq
            @ '') {''] @ rest)"
  proof
    assume "generate_vpc_diagram_lines (t\<lparr>vpc := new_VPC rid rtype reg [] cidr st dflt None\<rparr>) = Inr ls"
    from generate_vpc_diagram_lines_header [OF this]
    show "\<exists>rest. ls =
         [''AWSCloudGroup(cloud_'' @ replace_char (CHR ''-'') (CHR ''_'') rid @ '') {'',
          ''  VPCGroup('' @ replace_char (CHR ''-'') (CHR ''_'') rid @ '', '' @ dq @ rid @ dq
            @ '') {''] @ rest"
      by (simp add: untagged ids or_str_def)
  qed
  have p2: "route_table_rows (new_RouteTable rid rtype reg [] vid rs assocs None)
     = map (route_row (take 20 rid)) (take 3 rs)"
    by (simp add: route_table_rows_def untagged ids or_str_def)
  have p3: "lines (instance_step (new_EC2Instance rid rtype reg [] ity st vid sid pip sgs opub None) ps)
     = lines ps @ [''        EC2Instance('' @ replace_char (CHR ''-'') (CHR ''_'') rid @ '', '' @ dq
                    @ ''Instance'' @ bs @ ''n'' @ ity @ dq @ '', '' @ dq @ dq
                    @ '') #Transparent'']"
    by (simp add: instance_step_def Let_def untagged ids or_str_def)
  have p4: "lines (nat_step (ngw\<lparr>NATGateway.name := None\<rparr>) ps)
     = lines ps @ [''        VPCNATGateway('' @ replace_char (CHR ''-'') (CHR ''_'') (resource_id ngw)
                    @ '', '' @ dq @ ''NAT Gateway'' @ dq @ '', '' @ dq @ dq @ '') #Transparent'']"
    by (simp add: nat_step_def Let_def or_str_def)
  from tagged untagged r1 r2 r3 r4 p1 p2 p3 p4 show ?thesis by (intro conjI)
qed

text \<open>The theorem at the tags \<open>{"Name": "web-1"}\<close> and at a nameless VPC.\<close>

theorem name_derivation_witness:
  "map_of [(''Name'', ''web-1'')] ''Name'' = Some ''web-1'' \<and>
   EC2Instance.name (new_EC2Instance ''vpc-1'' ''ec2_instance'' ''us-east-1'' [(''Name'', ''web-1'')]
      ''t3.micro'' ''available'' ''vpc-1'' ''subnet-1'' ''10.0.1.5'' [] None None) = Some ''web-1'' \<and>
   VPC.name (new_VPC ''vpc-1'' ''ec2_instance'' ''us-east-1'' [(''Name'', ''web-1'')]
      ''10.0.0.0/16'' ''available'' False None) = Some ''web-1'' \<and>
   generate_vpc_diagram_lines
       (three_subnets_topology\<lparr>vpc := new_VPC ''vpc-1'' ''ec2_instance'' ''us-east-1'' []
          ''10.0.0.0/16'' ''available'' False None\<rparr>) =
     Inr (projr (generate_vpc_diagram_lines
       (three_subnets_topology\<lparr>vpc := new_VPC ''vpc-1'' ''ec2_instance'' ''us-east-1'' []
          ''10.0.0.0/16'' ''available'' False None\<rparr>))) \<and>
   (\<exists>rest. projr (generate_vpc_diagram_lines
       (three_subnets_topology\<lparr>vpc := new_VPC ''vpc-1'' ''ec2_instance'' ''us-east-1'' []
          ''10.0.0.0/16'' ''available'' False None\<rparr>)) =
      [''AWSCloudGroup(cloud_'' @ replace_char (CHR ''-'') (CHR ''_'') ''vpc-1'' @ '') {'',
       ''  VPCGroup('' @ replace_char (CHR ''-'') (CHR ''_'') ''vpc-1'' @ '', '' @ dq @ ''vpc-1'' @ dq
         @ '') {''] @ rest)"
proof -
  let ?t = "three_subnets_topology\<lparr>vpc := new_VPC ''vpc-1'' ''ec2_instance'' ''us-east-1'' []
          ''10.0.0.0/16'' ''available'' False None\<rparr>"
  have h: "map_of [(''Name'', ''web-1'')] ''Name'' = Some ''web-1''" by simp
  have "\<exists>ls. generate_vpc_diagram_lines ?t = Inr ls"
    by (rule generate_vpc_diagram_lines_total [of _ "[]" "[]" "[]"])
      (simp_all add: three_subnets_topology_def example_enriched_def)
  then have h2: "generate_vpc_diagram_lines ?t = Inr (projr (generate_vpc_diagram_lines ?t))"
    by auto
  note inst = name_derivation [where tgs = "[(''Name'', ''web-1'')]" and v = "''web-1''"
      and t = three_subnets_topology and rid = "''vpc-1''" and rtype = "''ec2_instance''"
      and reg = "''us-east-1''" and cidr = "''10.0.0.0/16''" and st = "''available''"
      and dflt = False and ls = "projr (generate_vpc_diagram_lines ?t)"]
  note tagged = inst [THEN conjunct1, THEN mp, OF h]
  note plant = inst [THEN conjunct2, THEN conjunct2, THEN conjunct2, THEN conjunct2,
      THEN conjunct2, THEN conjunct2, THEN conjunct2, THEN conjunct2, THEN conjunct2,
      THEN conjunct2, THEN conjunct2, THEN conjunct2, THEN conjunct2, THEN conjunct1,
      THEN mp, OF h2]
  show ?thesis
    by (intro conjI h h2 plant tagged [THEN conjunct1]
        tagged [THEN conjunct2, THEN conjunct2, THEN conjunct2, THEN conjunct2, THEN conjunct1])
qed

text \<open>
  Claim C8 as stated (rendering falls back to the resource id) fails in the PlantUML
  document: an instance constructed with empty tags and no name is labelled
  \<open>Instance\<close>, not with its resource id.
\<close>

theorem name_fallback_counterexample:
  "tags instance_a = [] \<and> EC2Instance.name instance_a = None \<and>
   resource_id instance_a = ''i-1'' \<and>
   generate_vpc_diagram_lines three_subnets_topology =
     Inr (projr (generate_vpc_diagram_lines three_subnets_topology)) \<and>
   (''        EC2Instance(i_1, '' @ dq @ ''Instance'' @ bs @ ''nt3.micro'' @ dq @ '', '' @ dq @ dq
      @ '') #Transparent'') \<in> set (projr (generate_vpc_diagram_lines three_subnets_topology)) \<and>
   (''        EC2Instance(i_1, '' @ dq @ ''i-1'' @ bs @ ''nt3.micro'' @ dq @ '', '' @ dq @ dq
      @ '') #Transparent'') \<notin> set (projr (generate_vpc_diagram_lines three_subnets_topology))"
  by code_simp

end
